theory Spec2Isabelle
  imports Complex_Main "HOL-Library.Word"
begin

section \<open>JavaScript values shared by the three modules\<close>

text \<open>
  A JavaScript string is a sequence of UTF-16 code units. The fixed status messages of the
  hook (\<open>'Transcription failed'\<close> and the like) are ASCII and are kept as HOL strings.
\<close>

type_synonym ustring = "16 word list"

definition ascii :: "string \<Rightarrow> ustring" where
  "ascii cs = map of_char cs"

text \<open>
  \<open>String.prototype.trim\<close> removes WhiteSpace and LineTerminator code points from both
  ends. All of them lie in the Basic Multilingual Plane, so the test is on one code unit.
\<close>

definition is_js_space :: "16 word \<Rightarrow> bool" where
  "is_js_space c =
     (c = 0x9 \<or> c = 0xA \<or> c = 0xB \<or> c = 0xC \<or> c = 0xD \<or> c = 0x20 \<or> c = 0xA0 \<or>
      c = 0x1680 \<or> (0x2000 \<le> c \<and> c \<le> 0x200A) \<or> c = 0x2028 \<or> c = 0x2029 \<or>
      c = 0x202F \<or> c = 0x205F \<or> c = 0x3000 \<or> c = 0xFEFF)"

definition trim :: "ustring \<Rightarrow> ustring" where
  "trim s = rev (dropWhile is_js_space (rev (dropWhile is_js_space s)))"

text \<open>
  The values \<open>JSON.parse\<close> and \<open>response.json()\<close> produce. A number is the IEEE double the
  parser read: a finite value, or an infinity when the literal overflows. An object is the
  list of its own properties; \<open>undefined\<close> (a missing property) is \<open>None\<close> of \<open>json option\<close>.
\<close>

datatype jsnum = Finite real | PosInfinity | NegInfinity

datatype json =
    JNull
  | JBool bool
  | JNum jsnum
  | JStr ustring
  | JArr "json list"
  | JObj "(ustring \<times> json) list"

datatype js_error =
    TypeError
  | SyntaxError
  | InvalidStateError
  | NotSupportedError
  | NotAllowedError
  | AbortError
  | Error string
  | GeminiConfigError string
  | GeminiApiError string "nat option" bool

fun truthy :: "json \<Rightarrow> bool" where
  "truthy JNull = False"
| "truthy (JBool b) = b"
| "truthy (JNum (Finite r)) = (r \<noteq> 0)"
| "truthy (JNum _) = True"
| "truthy (JStr s) = (s \<noteq> [])"
| "truthy (JArr _) = True"
| "truthy (JObj _) = True"

definition truthy_opt :: "json option \<Rightarrow> bool" where
  "truthy_opt v = (case v of None \<Rightarrow> False | Some j \<Rightarrow> truthy j)"

text \<open>
  Property read \<open>v.name\<close> for the property names the sources use (\<open>text\<close>, \<open>choices\<close>,
  \<open>delta\<close>, \<open>content\<close>, \<open>message\<close> and the sensor fields): none of them is a built-in
  property of a string, number, boolean or array, so only an object can have one. Reading a
  property of \<open>null\<close> or \<open>undefined\<close> throws a TypeError.
\<close>

fun prop_of :: "json \<Rightarrow> ustring \<Rightarrow> js_error + json option" where
  "prop_of JNull k = Inl TypeError"
| "prop_of (JObj kvs) k = Inr (map_of kvs k)"
| "prop_of _ k = Inr None"

text \<open>Optional chaining \<open>v?.name\<close>: \<open>undefined\<close> when \<open>v\<close> is \<open>null\<close> or \<open>undefined\<close>.\<close>

definition opt_prop :: "json option \<Rightarrow> ustring \<Rightarrow> json option" where
  "opt_prop v k =
     (case v of
        None \<Rightarrow> None
      | Some JNull \<Rightarrow> None
      | Some (JObj kvs) \<Rightarrow> map_of kvs k
      | Some _ \<Rightarrow> None)"

text \<open>
  Element read \<open>v[0]\<close>: the first element of an array, the property \<open>"0"\<close> of an object, the
  first code unit of a string; it throws on \<open>null\<close> and \<open>undefined\<close>.
\<close>

definition index0 :: "json option \<Rightarrow> js_error + json option" where
  "index0 v =
     (case v of
        None \<Rightarrow> Inl TypeError
      | Some JNull \<Rightarrow> Inl TypeError
      | Some (JArr xs) \<Rightarrow> Inr (case xs of [] \<Rightarrow> None | x # _ \<Rightarrow> Some x)
      | Some (JObj kvs) \<Rightarrow> Inr (map_of kvs (ascii ''0''))
      | Some (JStr s) \<Rightarrow> Inr (case s of [] \<Rightarrow> None | c # _ \<Rightarrow> Some (JStr [c]))
      | Some _ \<Rightarrow> Inr None)"

text \<open>
  An environment variable of \<open>import.meta.env\<close> is a string or \<open>undefined\<close>;
  \<open>a || b\<close> is \<open>a\<close> when \<open>a\<close> is truthy (a non-empty string) and \<open>b\<close> otherwise.
\<close>

definition env_truthy :: "string option \<Rightarrow> bool" where
  "env_truthy v = (case v of None \<Rightarrow> False | Some s \<Rightarrow> s \<noteq> [])"

definition env_or :: "string option \<Rightarrow> string option \<Rightarrow> string option" where
  "env_or a b = (if env_truthy a then a else b)"

text \<open>\<open>response.ok\<close>: the status is in the range 200 to 299.\<close>

definition response_ok :: "nat \<Rightarrow> bool" where
  "response_ok st = (200 \<le> st \<and> st \<le> 299)"


section \<open>The speech-to-text hook (\<open>src/hooks/useGroqSTT.ts\<close>)\<close>

definition VAD_THRESHOLD :: real where
  "VAD_THRESHOLD = 20"

definition SILENCE_DURATION :: int where
  "SILENCE_DURATION = 1500"

type_synonym blob = "8 word list"

datatype recorder_state = Inactive | Recording | Paused

datatype context_state = Suspended | Running | Closed

datatype node_state = Connected | Disconnected

record AnalyserNode =
  fftSize :: nat

text \<open>The calls the hook makes on platform objects, in the order it makes them.\<close>

datatype call =
    Recorder_start
  | Recorder_stop
  | RequestAnimationFrame nat
  | CancelAnimationFrame nat
  | Source_disconnect
  | Analyser_disconnect
  | Context_close
  | Track_stop nat
  | Fetch_post string blob

text \<open>
  The state of one mounted hook: the three React state cells, the refs, and the part of the
  browser the hook talks to: the microphone streams \<open>getUserMedia\<close> has handed out whose
  tracks are still live (by number, with the counter the numbers come from), the pending
  animation-frame requests (with the counter the handles come from), and the log of calls.
  A handle of \<open>requestAnimationFrame\<close> is a non-zero integer.
\<close>

record stt =
  isListening :: bool
  transcript :: ustring
  error :: "string option"
  mediaRecorderRef :: "recorder_state option"
  audioChunksRef :: "blob list"
  audioContextRef :: "context_state option"
  analyserRef :: "AnalyserNode option"
  sourceRef :: "node_state option"
  animationFrameRef :: "nat option"
  lastSpeechTimeRef :: int
  isSpeechDetectedRef :: bool
  liveStreams :: "nat list"
  streamCounter :: nat
  frames :: "nat list"
  frameCounter :: nat
  calls :: "call list"

text \<open>
  A call that throws leaves the state as it was at the throw: the outcome of a fallible
  routine is the new state, or the error together with the state reached.
\<close>

type_synonym outcome = "(js_error \<times> stt) + stt"

definition MediaRecorder_stop :: "stt \<Rightarrow> outcome" where
  "MediaRecorder_stop s =
     (case mediaRecorderRef s of
        None \<Rightarrow> Inl (TypeError, s)
      | Some Inactive \<Rightarrow> Inl (InvalidStateError, s)
      | Some _ \<Rightarrow> Inr (s\<lparr>mediaRecorderRef := Some Inactive, calls := calls s @ [Recorder_stop]\<rparr>))"

definition requestAnimationFrame :: "stt \<Rightarrow> nat \<times> stt" where
  "requestAnimationFrame s =
     (let h = Suc (frameCounter s)
      in (h, s\<lparr>frameCounter := h, frames := frames s @ [h],
                calls := calls s @ [RequestAnimationFrame h]\<rparr>))"

definition cancelAnimationFrame :: "nat \<Rightarrow> stt \<Rightarrow> stt" where
  "cancelAnimationFrame h s =
     s\<lparr>frames := removeAll h (frames s), calls := calls s @ [CancelAnimationFrame h]\<rparr>"

definition recorder_active :: "stt \<Rightarrow> bool" where
  "recorder_active s = (case mediaRecorderRef s of None \<Rightarrow> False | Some r \<Rightarrow> r \<noteq> Inactive)"

text \<open>
  The guarded cancellation both teardown routines share:
  \<open>if (animationFrameRef.current) { cancelAnimationFrame(...); animationFrameRef.current = null }\<close>.
  The test is for a truthy value: a handle that is not \<open>null\<close> and not \<open>0\<close>.
\<close>

definition cancel_frame_ref :: "stt \<Rightarrow> stt" where
  "cancel_frame_ref s =
     (case animationFrameRef s of
        None \<Rightarrow> s
      | Some h \<Rightarrow>
          if h \<noteq> 0 then (cancelAnimationFrame h s)\<lparr>animationFrameRef := None\<rparr> else s)"

definition stop_if_active :: "stt \<Rightarrow> outcome" where
  "stop_if_active s = (if recorder_active s then MediaRecorder_stop s else Inr s)"

definition stopListening :: "stt \<Rightarrow> outcome" where
  "stopListening s =
     (case stop_if_active s of
        Inl e \<Rightarrow> Inl e
      | Inr s1 \<Rightarrow> Inr (cancel_frame_ref s1))"

definition disconnect_source :: "stt \<Rightarrow> stt" where
  "disconnect_source s =
     (if sourceRef s \<noteq> None
      then s\<lparr>sourceRef := None, calls := calls s @ [Source_disconnect]\<rparr>
      else s)"

definition disconnect_analyser :: "stt \<Rightarrow> stt" where
  "disconnect_analyser s =
     (if analyserRef s \<noteq> None
      then s\<lparr>analyserRef := None, calls := calls s @ [Analyser_disconnect]\<rparr>
      else s)"

definition close_context :: "stt \<Rightarrow> stt" where
  "close_context s =
     (if audioContextRef s \<noteq> None \<and> audioContextRef s \<noteq> Some Closed
      then s\<lparr>audioContextRef := None, calls := calls s @ [Context_close]\<rparr>
      else s)"

definition cleanupAudio :: "stt \<Rightarrow> outcome" where
  "cleanupAudio s =
     (case stop_if_active s of
        Inl e \<Rightarrow> Inl e
      | Inr s1 \<Rightarrow>
          Inr (close_context (disconnect_analyser (disconnect_source (cancel_frame_ref s1)))))"

text \<open>
  One tick of the VAD loop. The array has \<open>frequencyBinCount = fftSize / 2\<close> entries, zero
  before \<open>getByteFrequencyData\<close> copies the analyser's bins into it. The average is a
  quotient of a sum below \<open>2^15\<close> by the array length, \<open>128\<close> in every session, which a
  double holds exactly; for an empty array JavaScript compares \<open>NaN\<close> and HOL compares
  \<open>0\<close>, both not above the threshold. \<open>Date.now()\<close> is an integer of milliseconds.
\<close>

definition frequencyBinCount :: "AnalyserNode \<Rightarrow> nat" where
  "frequencyBinCount a = fftSize a div 2"

definition getByteFrequencyData :: "AnalyserNode \<Rightarrow> 8 word list \<Rightarrow> 8 word list" where
  "getByteFrequencyData a bins =
     take (frequencyBinCount a) (bins @ replicate (frequencyBinCount a) 0)"

definition average :: "8 word list \<Rightarrow> real" where
  "average dataArray = real (sum_list (map unat dataArray)) / real (length dataArray)"

definition checkVolume :: "8 word list \<Rightarrow> int \<Rightarrow> stt \<Rightarrow> outcome" where
  "checkVolume bins now s =
     (case analyserRef s of
        None \<Rightarrow> Inr s
      | Some a \<Rightarrow>
          let dataArray = getByteFrequencyData a bins;
              s1 = (if average dataArray > VAD_THRESHOLD
                    then s\<lparr>isSpeechDetectedRef := True, lastSpeechTimeRef := now\<rparr>
                    else s)
          in if isSpeechDetectedRef s1 \<and> now - lastSpeechTimeRef s1 > SILENCE_DURATION
             then stopListening s1
             else (let (h, s2) = requestAnimationFrame s1
                   in Inr (s2\<lparr>animationFrameRef := Some h\<rparr>)))"

text \<open>
  What the network returns to \<open>processAudio\<close>: \<open>fetch\<close> rejects, or resolves with a status
  and the result of \<open>response.json()\<close>.
\<close>

datatype stt_fetch =
    Fetch_rejected js_error
  | Fetch_response nat "js_error + json"

record stt_env =
  VITE_GROQ_API_KEY :: "string option"
  VITE_GEMINI_API_KEY :: "string option"
  upload :: stt_fetch

definition text_key :: ustring where
  "text_key = ascii ''text''"

text \<open>
  \<open>data.text.trim()\<close> is a TypeError unless \<open>data.text\<close> is a string: no other JSON value
  has a \<open>trim\<close> method.
\<close>

definition apply_response :: "json \<Rightarrow> stt \<Rightarrow> js_error + stt" where
  "apply_response data s =
     (case prop_of data text_key of
        Inl e \<Rightarrow> Inl e
      | Inr v \<Rightarrow>
          if truthy_opt v
          then (case v of
                  Some (JStr t) \<Rightarrow>
                    let cleanText = trim t
                    in if length cleanText > 0 then Inr (s\<lparr>transcript := cleanText\<rparr>) else Inr s
                | _ \<Rightarrow> Inl TypeError)
          else Inr s)"

definition processAudio :: "stt_env \<Rightarrow> blob \<Rightarrow> stt \<Rightarrow> stt" where
  "processAudio env audioBlob s =
     (let apiKey = env_or (VITE_GROQ_API_KEY env) (VITE_GEMINI_API_KEY env)
      in if \<not> env_truthy apiKey then s\<lparr>error := Some ''Missing API Key''\<rparr>
         else
           let key = (case apiKey of None \<Rightarrow> [] | Some k \<Rightarrow> k);
               s1 = s\<lparr>calls := calls s @ [Fetch_post key audioBlob]\<rparr>;
               failed = s1\<lparr>error := Some ''Transcription failed''\<rparr>
           in (case upload env of
                 Fetch_rejected e \<Rightarrow> failed
               | Fetch_response st body \<Rightarrow>
                   if \<not> response_ok st then failed
                   else (case body of
                           Inl e \<Rightarrow> failed
                         | Inr data \<Rightarrow>
                             (case apply_response data s1 of
                                Inl e \<Rightarrow> failed
                              | Inr s2 \<Rightarrow> s2))))"

text \<open>
  The \<open>onstop\<close> handler of a recorder. \<open>captured\<close> is the stream its closure captured
  when its session started: the handler stops the tracks of that stream and of no
  other. \<open>new Blob(chunks)\<close> is the concatenation of the chunks and its \<open>size\<close> the number
  of bytes.
\<close>

definition onstop :: "stt_env \<Rightarrow> nat \<Rightarrow> stt \<Rightarrow> stt" where
  "onstop env captured s =
     (let audioBlob = concat (audioChunksRef s);
          s1 = s\<lparr>liveStreams := removeAll captured (liveStreams s),
                 calls := calls s @ [Track_stop captured], isListening := False\<rparr>
      in if isSpeechDetectedRef s1 \<and> length audioBlob > 1000
         then processAudio env audioBlob s1
         else s1)"

definition ondataavailable :: "blob \<Rightarrow> stt \<Rightarrow> stt" where
  "ondataavailable d s =
     (if length d > 0 then s\<lparr>audioChunksRef := audioChunksRef s @ [d]\<rparr> else s)"

text \<open>
  \<open>startListening\<close>: \<open>getUserMedia\<close> may reject, and the \<open>MediaRecorder\<close> constructor throws
  where the container \<open>audio/webm\<close> is not supported; the \<open>catch\<close> of the routine takes both.
  A granted request hands out a new stream, which the handlers of the session capture.
\<close>

definition resetTranscript :: "stt \<Rightarrow> stt" where
  "resetTranscript s = s\<lparr>transcript := [], error := None\<rparr>"

datatype mic = Granted | Denied | Recorder_unsupported

definition init_failed :: "stt \<Rightarrow> stt" where
  "init_failed s = s\<lparr>error := Some ''Microphone access denied'', isListening := False\<rparr>"

definition startListening :: "mic \<Rightarrow> 8 word list \<Rightarrow> int \<Rightarrow> stt \<Rightarrow> stt" where
  "startListening m bins now s =
     (case cleanupAudio s of
        Inl (e, s') \<Rightarrow> init_failed s'
      | Inr s1 \<Rightarrow>
          let s2 = s1\<lparr>error := None, transcript := []\<rparr>
          in if m = Denied then init_failed s2
             else
               let granted = Suc (streamCounter s2);
                   s3 = s2\<lparr>streamCounter := granted,
                           liveStreams := liveStreams s2 @ [granted],
                           audioContextRef := Some Running,
                           analyserRef := Some \<lparr>fftSize = 256\<rparr>,
                           sourceRef := Some Connected,
                           lastSpeechTimeRef := 0,
                           isSpeechDetectedRef := False\<rparr>
               in if m = Recorder_unsupported then init_failed s3
                  else
                    let s4 = s3\<lparr>mediaRecorderRef := Some Recording,
                                audioChunksRef := [],
                                calls := calls s3 @ [Recorder_start],
                                isListening := True\<rparr>
                    in (case checkVolume bins now s4 of
                          Inl (e, s') \<Rightarrow> init_failed s'
                        | Inr s5 \<Rightarrow> s5))"

text \<open>
  What can happen to a mounted hook between two starts: the browser runs the oldest pending
  animation-frame callback, the caller stops or resets the transcript, the recorder delivers
  data or its stop event (to the handler of the recorder that stopped, with the stream that
  handler captured), the component unmounts. A run stops at the first uncaught error.
\<close>

datatype event =
    Frame "8 word list" int
  | StopListening
  | CleanupAudio
  | DataAvailable blob
  | OnStop stt_env nat
  | ResetTranscript

fun step :: "event \<Rightarrow> stt \<Rightarrow> outcome" where
  "step (Frame bins now) s =
     (case frames s of
        [] \<Rightarrow> Inr s
      | h # hs \<Rightarrow> checkVolume bins now (s\<lparr>frames := hs\<rparr>))"
| "step StopListening s = stopListening s"
| "step CleanupAudio s = cleanupAudio s"
| "step (DataAvailable d) s = Inr (ondataavailable d s)"
| "step (OnStop env captured) s = Inr (onstop env captured s)"
| "step ResetTranscript s = Inr (resetTranscript s)"

fun run :: "event list \<Rightarrow> stt \<Rightarrow> outcome" where
  "run [] s = Inr s"
| "run (e # es) s = (case step e s of Inl x \<Rightarrow> Inl x | Inr s' \<Rightarrow> run es s')"

definition initial_stt :: stt where
  "initial_stt =
     \<lparr>isListening = False, transcript = [], error = None, mediaRecorderRef = None,
      audioChunksRef = [], audioContextRef = None, analyserRef = None, sourceRef = None,
      animationFrameRef = None, lastSpeechTimeRef = 0, isSpeechDetectedRef = False,
      liveStreams = [], streamCounter = 0, frames = [], frameCounter = 0, calls = []\<rparr>"

definition quiet :: "stt \<Rightarrow> 8 word list \<Rightarrow> bool" where
  "quiet s bins =
     (case analyserRef s of
        None \<Rightarrow> True
      | Some a \<Rightarrow> \<not> average (getByteFrequencyData a bins) > VAD_THRESHOLD)"


text \<open>
  Notions the statements about the hook use. A hook is \<open>stopped\<close> when the guards of
  \<open>stopListening\<close> both fail, and \<open>torn_down\<close> when every guard of \<open>cleanupAudio\<close> fails.
  \<open>schedule\<close> is the last statement of \<open>checkVolume\<close>. A hook is \<open>listening\<close> while a
  session runs: the analyser is wired, the recorder records, and the one pending
  animation-frame request is the one \<open>animationFrameRef\<close> holds. It is \<open>tidy\<close> when no
  frame request is pending but, at most, the one \<open>animationFrameRef\<close> holds, as before the first
  start and after every stop. A reading of the analyser is \<open>loud\<close> when its average, in
  the array of a session (\<open>fftSize = 256\<close>), is above the threshold. \<open>ticks\<close> turns the
  readings and clock values of successive frames into events, and \<open>stop_calls\<close> counts the
  calls of \<open>MediaRecorder.stop\<close> made so far.
\<close>

definition stopped :: "stt \<Rightarrow> bool" where
  "stopped s = (\<not> recorder_active s \<and> (animationFrameRef s = None \<or> animationFrameRef s = Some 0))"

definition torn_down :: "stt \<Rightarrow> bool" where
  "torn_down s = (stopped s \<and> sourceRef s = None \<and> analyserRef s = None \<and>
     (audioContextRef s = None \<or> audioContextRef s = Some Closed))"

definition schedule :: "stt \<Rightarrow> stt" where
  "schedule s = (let (h, s2) = requestAnimationFrame s in s2\<lparr>animationFrameRef := Some h\<rparr>)"

definition listening :: "stt \<Rightarrow> bool" where
  "listening s =
     (analyserRef s \<noteq> None \<and> mediaRecorderRef s = Some Recording \<and>
      (case animationFrameRef s of None \<Rightarrow> False | Some h \<Rightarrow> h \<noteq> 0 \<and> frames s = [h]))"

definition tidy :: "stt \<Rightarrow> bool" where
  "tidy s = (frames s = [] \<or> (\<exists>h. h \<noteq> 0 \<and> animationFrameRef s = Some h \<and> frames s = [h]))"

definition loud :: "8 word list \<Rightarrow> bool" where
  "loud bins = (average (getByteFrequencyData \<lparr>fftSize = 256\<rparr> bins) > VAD_THRESHOLD)"

definition ticks :: "(8 word list \<times> int) list \<Rightarrow> event list" where
  "ticks ts = map (\<lambda>(bins, now). Frame bins now) ts"

definition stop_calls :: "stt \<Rightarrow> nat" where
  "stop_calls s = count_list (calls s) Recorder_stop"


section \<open>The conversational service (chat completions client)\<close>

text \<open>
  What the JavaScript platform supplies to the streaming decoder: \<open>JSON.parse\<close>, which
  returns a value or throws a SyntaxError (\<open>None\<close>), and the conversion of a number to a
  string that \<open>+=\<close> on a string applies.
\<close>

record platform =
  JSON_parse :: "ustring \<Rightarrow> json option"
  Number_toString :: "jsnum \<Rightarrow> ustring"

fun join_with :: "ustring \<Rightarrow> ustring list \<Rightarrow> ustring" where
  "join_with sep [] = []"
| "join_with sep [x] = x"
| "join_with sep (x # y # ys) = x @ sep @ join_with sep (y # ys)"

text \<open>
  The string that \<open>fullResponse += content\<close> appends for a JSON value: \<open>ToPrimitive\<close>
  followed by \<open>ToString\<close>. An array joins the strings of its elements with commas, \<open>null\<close>
  elements as the empty string. An object is \<open>[object Object]\<close>, unless it has an own
  property \<open>toString\<close>: a value that \<open>JSON.parse\<close> made is never callable, so neither
  \<open>toString\<close> nor \<open>valueOf\<close> gives a primitive and the conversion throws a TypeError.
\<close>

fun to_string :: "platform \<Rightarrow> json \<Rightarrow> js_error + ustring"
  and to_strings :: "platform \<Rightarrow> json list \<Rightarrow> js_error + ustring list" where
  "to_string pf JNull = Inr (ascii ''null'')"
| "to_string pf (JBool b) = Inr (if b then ascii ''true'' else ascii ''false'')"
| "to_string pf (JNum n) = Inr (Number_toString pf n)"
| "to_string pf (JStr s) = Inr s"
| "to_string pf (JArr xs) =
     (case to_strings pf xs of
        Inl e \<Rightarrow> Inl e
      | Inr ss \<Rightarrow> Inr (join_with (ascii '','') ss))"
| "to_string pf (JObj kvs) =
     (if map_of kvs (ascii ''toString'') \<noteq> None then Inl TypeError
      else Inr (ascii ''[object Object]''))"
| "to_strings pf [] = Inr []"
| "to_strings pf (x # xs) =
     (case (if x = JNull then Inr [] else to_string pf x) of
        Inl e \<Rightarrow> Inl e
      | Inr s \<Rightarrow>
          (case to_strings pf xs of
             Inl e \<Rightarrow> Inl e
           | Inr ss \<Rightarrow> Inr (s # ss)))"

text \<open>The decimal digits of a status code, as a template literal prints a number.\<close>

definition digit :: "nat \<Rightarrow> char" where
  "digit d = char_of (d + 48)"

fun decimal :: "nat \<Rightarrow> string" where
  "decimal n = (if n div 10 = 0 then [digit n] else decimal (n div 10) @ [digit (n mod 10)])"

datatype role = System | User | Assistant

record ChatMessage =
  role :: role
  content :: json

definition SYSTEM_PROMPT :: ustring where
  "SYSTEM_PROMPT =
     ascii ''Ti je AERA, nj'' @ [0xEB] @ ascii '' pasqyr'' @ [0xEB] @
     ascii '' inteligjente futuristike.'' @ [0xA] @ ascii ''- Fol vet'' @ [0xEB] @
     ascii ''m Shqip.'' @ [0xA] @ ascii ''- P'' @ [0xEB] @ ascii ''rgjigju shkurt dhe sakt'' @
     [0xEB] @ ascii '' (maksimumi 2 fjali).'' @ [0xA] @
     ascii ''- Ji e sjellshme, pak misterioze, por shum'' @ [0xEB] @ ascii '' e dobishme.'' @
     [0xA] @ ascii ''- Mos p'' @ [0xEB] @ ascii ''rdor formatting (bold/italic), vet'' @
     [0xEB] @ ascii ''m tekst t'' @ [0xEB] @ ascii '' thjesht'' @ [0xEB] @ ascii '' p'' @
     [0xEB] @ ascii ''r t'' @ [0x27] @ ascii ''u lexuar me z'' @ [0xEB] @ ascii ''.'' @ [0xA] @
     ascii ''- N'' @ [0xEB] @ ascii ''se t'' @ [0xEB] @ ascii '' pyesin p'' @ [0xEB] @
     ascii ''r or'' @ [0xEB] @ ascii ''n ose dat'' @ [0xEB] @ ascii ''n, p'' @ [0xEB] @
     ascii ''rgjigju bazuar n'' @ [0xEB] @ ascii '' koh'' @ [0xEB] @ ascii ''n aktuale.''"

definition DEFAULT_REPLY :: ustring where
  "DEFAULT_REPLY =
     ascii ''M'' @ [0xEB] @ ascii '' falni, nuk arrita t'' @ [0xEB] @ ascii '' p'' @ [0xEB] @
     ascii ''rgjigjem.''"

text \<open>
  The module state \<open>conversationHistory\<close>, and beside it the message lists the module has
  posted to the endpoint, one entry for each \<open>fetch\<close>. The functions below describe one
  call that runs from its start to its end with no other call of the module in between.
\<close>

record chat =
  conversationHistory :: "ChatMessage list"
  requests :: "ChatMessage list list"

text \<open>
  What the endpoint returns to \<open>sendMessageToGemini\<close>: \<open>fetch\<close> rejects, or resolves with a
  status, the result of \<open>response.text()\<close> and the result of \<open>response.json()\<close>.
\<close>

datatype chat_fetch =
    Chat_rejected js_error
  | Chat_response nat "js_error + ustring" "js_error + json"

text \<open>
  What it returns to \<open>streamMessageToGemini\<close>: the body is \<open>null\<close> or a reader that delivers
  chunks of text (as the \<open>TextDecoder\<close> decodes them) and then reports \<open>done\<close> or fails.
\<close>

record body_reader =
  chunks :: "ustring list"
  read_error :: "js_error option"

datatype stream_fetch =
    Stream_rejected js_error
  | Stream_response nat "body_reader option"

record chat_env =
  GROQ_API_KEY :: "string option"
  GEMINI_API_KEY :: "string option"
  reply :: chat_fetch
  stream :: stream_fetch

definition API_KEY :: "chat_env \<Rightarrow> string option" where
  "API_KEY env = env_or (env_or (GROQ_API_KEY env) (GEMINI_API_KEY env)) (Some [])"

definition choices_key :: ustring where
  "choices_key = ascii ''choices''"

definition message_key :: ustring where
  "message_key = ascii ''message''"

definition delta_key :: ustring where
  "delta_key = ascii ''delta''"

definition content_key :: ustring where
  "content_key = ascii ''content''"

definition init_history :: "ChatMessage list \<Rightarrow> ChatMessage list" where
  "init_history h =
     (if length h = 0 then h @ [\<lparr>role = System, content = JStr SYSTEM_PROMPT\<rparr>] else h)"

text \<open>\<open>data.choices[0]?.message?.content || "..."\<close>\<close>

definition reply_of :: "json \<Rightarrow> js_error + json" where
  "reply_of data =
     (case prop_of data choices_key of
        Inl e \<Rightarrow> Inl e
      | Inr ch \<Rightarrow>
          (case index0 ch of
             Inl e \<Rightarrow> Inl e
           | Inr c0 \<Rightarrow>
               (case opt_prop (opt_prop c0 message_key) content_key of
                  None \<Rightarrow> Inr (JStr DEFAULT_REPLY)
                | Some v \<Rightarrow> Inr (if truthy v then v else JStr DEFAULT_REPLY))))"

text \<open>
  The memory management of \<open>sendMessageToGemini\<close>: \<open>slice(-6)\<close> is the last six entries
  (the whole array when it has fewer).
\<close>

definition trim_history :: "ChatMessage list \<Rightarrow> ChatMessage list" where
  "trim_history h =
     (if length h > 7
      then (case h of [] \<Rightarrow> [] | first # _ \<Rightarrow> first # drop (length h - 6) h)
      else h)"

text \<open>The body of the \<open>try\<close> block of \<open>sendMessageToGemini\<close>, after the \<open>fetch\<close> has settled.\<close>

definition send_try :: "chat_fetch \<Rightarrow> ChatMessage list \<Rightarrow> (js_error + json) \<times> ChatMessage list" where
  "send_try f h =
     (case f of
        Chat_rejected e \<Rightarrow> (Inl e, h)
      | Chat_response st txt js \<Rightarrow>
          if \<not> response_ok st
          then (case txt of
                  Inl e \<Rightarrow> (Inl e, h)
                | Inr err \<Rightarrow>
                    if st = 429
                    then (Inl (GeminiApiError ''Groq Rate Limit - Too fast'' (Some 429) True), h)
                    else (Inl (GeminiApiError (''Groq Error: '' @ decimal st) (Some st) False), h))
          else (case js of
                  Inl e \<Rightarrow> (Inl e, h)
                | Inr data \<Rightarrow>
                    (case reply_of data of
                       Inl e \<Rightarrow> (Inl e, h)
                     | Inr r \<Rightarrow> (Inr r, trim_history (h @ [\<lparr>role = Assistant, content = r\<rparr>])))))"

text \<open>\<open>Array.prototype.pop\<close> removes the last entry and leaves an empty array empty.\<close>

definition pop :: "'a list \<Rightarrow> 'a list" where
  "pop h = butlast h"

definition sendMessageToGemini :: "chat_env \<Rightarrow> ustring \<Rightarrow> chat \<Rightarrow> (js_error + json) \<times> chat" where
  "sendMessageToGemini env userMessage c =
     (if \<not> env_truthy (API_KEY env)
      then (Inl (GeminiConfigError ''VITE_GROQ_API_KEY is missing''), c)
      else
        let h1 = init_history (conversationHistory c);
            h2 = h1 @ [\<lparr>role = User, content = JStr userMessage\<rparr>];
            rq = requests c @ [h2]
        in (case send_try (reply env) h2 of
              (Inl e, h3) \<Rightarrow> (Inl e, \<lparr>conversationHistory = pop h3, requests = rq\<rparr>)
            | (Inr r, h3) \<Rightarrow> (Inr r, \<lparr>conversationHistory = h3, requests = rq\<rparr>)))"

text \<open>The streaming decoder: \<open>chunk.split('\n')\<close> and the loop over the lines.\<close>

fun split_lines :: "ustring \<Rightarrow> ustring list" where
  "split_lines [] = [[]]"
| "split_lines (c # cs) =
     (if c = 0xA then [] # split_lines cs
      else (case split_lines cs of
              [] \<Rightarrow> [[c]]
            | l # ls \<Rightarrow> (c # l) # ls))"

definition startsWith :: "ustring \<Rightarrow> ustring \<Rightarrow> bool" where
  "startsWith s p = (take (length p) s = p)"

definition data_prefix :: ustring where
  "data_prefix = ascii ''data: ''"

definition done_line :: ustring where
  "done_line = ascii ''data: [DONE]''"

text \<open>\<open>json.choices[0]?.delta?.content\<close>\<close>

definition delta_content :: "json \<Rightarrow> js_error + json option" where
  "delta_content j =
     (case prop_of j choices_key of
        Inl e \<Rightarrow> Inl e
      | Inr ch \<Rightarrow>
          (case index0 ch of
             Inl e \<Rightarrow> Inl e
           | Inr c0 \<Rightarrow> Inr (opt_prop (opt_prop c0 delta_key) content_key)))"

text \<open>
  The decoder's running state: \<open>fullResponse\<close> and the values yielded so far. \<open>line_try\<close> is
  the body of the \<open>try\<close> block of one line, \<open>process_line\<close> the loop body with its \<open>catch\<close>.
\<close>

type_synonym decoder = "ustring \<times> json list"

definition line_try :: "platform \<Rightarrow> ustring \<Rightarrow> decoder \<Rightarrow> js_error + decoder" where
  "line_try pf line d =
     (case JSON_parse pf (drop 6 line) of
        None \<Rightarrow> Inl SyntaxError
      | Some j \<Rightarrow>
          (case delta_content j of
             Inl e \<Rightarrow> Inl e
           | Inr None \<Rightarrow> Inr d
           | Inr (Some v) \<Rightarrow>
               if truthy v
               then (case to_string pf v of
                       Inl e \<Rightarrow> Inl e
                     | Inr str \<Rightarrow> Inr (fst d @ str, snd d @ [v]))
               else Inr d))"

definition process_line :: "platform \<Rightarrow> ustring \<Rightarrow> decoder \<Rightarrow> decoder" where
  "process_line pf line d =
     (if startsWith line data_prefix \<and> line \<noteq> done_line
      then (case line_try pf line d of Inl e \<Rightarrow> d | Inr d' \<Rightarrow> d')
      else d)"

fun process_lines :: "platform \<Rightarrow> ustring list \<Rightarrow> decoder \<Rightarrow> decoder" where
  "process_lines pf [] d = d"
| "process_lines pf (line # ls) d = process_lines pf ls (process_line pf line d)"

fun read_loop :: "platform \<Rightarrow> ustring list \<Rightarrow> decoder \<Rightarrow> decoder" where
  "read_loop pf [] d = d"
| "read_loop pf (chunk # cs) d = read_loop pf cs (process_lines pf (split_lines chunk) d)"

text \<open>
  The body of the \<open>try\<close> block of \<open>streamMessageToGemini\<close>, for a consumer that takes every
  value: the error thrown (if any), the values yielded, and the history.
\<close>

definition stream_try ::
  "platform \<Rightarrow> stream_fetch \<Rightarrow> ChatMessage list \<Rightarrow> (js_error option \<times> json list) \<times> ChatMessage list" where
  "stream_try pf f h =
     (case f of
        Stream_rejected e \<Rightarrow> ((Some e, []), h)
      | Stream_response st body \<Rightarrow>
          if \<not> response_ok st
          then ((Some (GeminiApiError (''Stream Error: '' @ decimal st) None False), []), h)
          else (case body of
                  None \<Rightarrow> ((Some (Error ''No body''), []), h)
                | Some rd \<Rightarrow>
                    let d = read_loop pf (chunks rd) ([], [])
                    in (case read_error rd of
                          Some e \<Rightarrow> ((Some e, snd d), h)
                        | None \<Rightarrow>
                            ((None, snd d), h @ [\<lparr>role = Assistant, content = JStr (fst d)\<rparr>]))))"

definition streamMessageToGemini ::
  "platform \<Rightarrow> chat_env \<Rightarrow> ustring \<Rightarrow> chat \<Rightarrow> (js_error option \<times> json list) \<times> chat" where
  "streamMessageToGemini pf env userMessage c =
     (if \<not> env_truthy (API_KEY env)
      then ((Some (GeminiConfigError ''API Key missing''), []), c)
      else
        let h1 = init_history (conversationHistory c);
            h2 = h1 @ [\<lparr>role = User, content = JStr userMessage\<rparr>];
            rq = requests c @ [h2]
        in (case stream_try pf (stream env) h2 of
              ((Some e, ys), h3) \<Rightarrow> ((Some e, ys), \<lparr>conversationHistory = pop h3, requests = rq\<rparr>)
            | ((None, ys), h3) \<Rightarrow> ((None, ys), \<lparr>conversationHistory = h3, requests = rq\<rparr>)))"

definition resetConversation :: "chat \<Rightarrow> chat" where
  "resetConversation c = c\<lparr>conversationHistory := []\<rparr>"

definition getConversationLength :: "chat \<Rightarrow> nat" where
  "getConversationLength c = length (conversationHistory c)"

text \<open>
  The decoder as the specification words it, to compare with the loop above: what one
  received line contributes, as the value yielded and the string appended. A line with the
  data prefix, other than the sentinel, is parsed, and its \<open>choices[0].delta.content\<close> is
  the contribution when it is present, that is, when \<open>if (content)\<close> accepts it, and has a
  string form; a line on which the parse, the read of the content or the conversion to a
  string throws, a line whose value has no such content, and every other line contribute
  nothing.
\<close>

definition spec_line_content :: "platform \<Rightarrow> ustring \<Rightarrow> (json \<times> ustring) option" where
  "spec_line_content pf line =
     (if startsWith line data_prefix \<and> line \<noteq> done_line
      then (case JSON_parse pf (drop 6 line) of
              None \<Rightarrow> None
            | Some j \<Rightarrow>
                (case delta_content j of
                   Inr (Some v) \<Rightarrow>
                     if truthy v
                     then (case to_string pf v of Inl e \<Rightarrow> None | Inr str \<Rightarrow> Some (v, str))
                     else None
                 | _ \<Rightarrow> None))
      else None)"

text \<open>
  The chunks of a body do not split a line when every chunk but the last is empty or ends
  with a line feed.
\<close>

fun unsplit :: "ustring list \<Rightarrow> bool" where
  "unsplit [] = True"
| "unsplit [c] = True"
| "unsplit (c # cs) = ((c = [] \<or> last c = 0xA) \<and> unsplit cs)"


section \<open>The sensor service and the simulation utilities\<close>

text \<open>
  A value of \<open>import.meta.env\<close> as \<open>isSimulationMode\<close> tests it: a string, a boolean or
  \<open>undefined\<close>.
\<close>

datatype env_value = Env_undefined | Env_string string | Env_bool bool

definition isSimulationMode :: "env_value \<Rightarrow> bool" where
  "isSimulationMode mode =
     (mode = Env_string ''true'' \<or> mode = Env_bool True \<or> mode = Env_string ''1'')"

text \<open>\<open>number | null\<close> is \<open>jsnum option\<close>; a \<open>Date\<close> is its time value in milliseconds.\<close>

record SensorData =
  temperature :: "jsnum option"
  humidity :: "jsnum option"
  tempAlert :: bool
  light :: "jsnum option"
  lightIsDark :: bool
  motion :: bool
  lastMotion :: "jsnum option"
  isConnected :: bool
  lastUpdated :: int

definition DEFAULT_SENSOR_DATA :: "int \<Rightarrow> SensorData" where
  "DEFAULT_SENSOR_DATA loaded =
     \<lparr>temperature = None, humidity = None, tempAlert = False, light = None,
      lightIsDark = False, motion = False, lastMotion = None, isConnected = False,
      lastUpdated = loaded\<rparr>"

text \<open>
  The arithmetic of IEEE doubles is the platform's: addition, subtraction, multiplication
  and division with their rounding, \<open>Math.round\<close>, and the comparison \<open><\<close> (\<open>a > b\<close> is
  \<open>b < a\<close>). The values \<open>Math.random()\<close> returns are doubles.
\<close>

record ieee =
  f_add :: "jsnum \<Rightarrow> jsnum \<Rightarrow> jsnum"
  f_sub :: "jsnum \<Rightarrow> jsnum \<Rightarrow> jsnum"
  f_mul :: "jsnum \<Rightarrow> jsnum \<Rightarrow> jsnum"
  f_div :: "jsnum \<Rightarrow> jsnum \<Rightarrow> jsnum"
  Math_round :: "jsnum \<Rightarrow> jsnum"
  f_less :: "jsnum \<Rightarrow> jsnum \<Rightarrow> bool"

record draws =
  draw_temperature :: jsnum
  draw_humidity :: jsnum
  draw_light :: jsnum
  draw_motion :: jsnum
  draw_last_motion :: jsnum

text \<open>
  The literal \<open>0.7\<close> is the double nearest to seven tenths; the other literals of the
  function are integers, which are doubles themselves.
\<close>

definition literal_0_7 :: jsnum where
  "literal_0_7 = Finite (6305039478318694 / 9007199254740992)"

text \<open>
  \<open>generateSimulatedSensorData\<close>, from the five values \<open>Math.random()\<close> returns, in the order
  of the calls, and the clock (its two reads taken as one).
\<close>

definition generateSimulatedSensorData :: "ieee \<Rightarrow> draws \<Rightarrow> int \<Rightarrow> SensorData" where
  "generateSimulatedSensorData fp rnd now =
     (let temperature = f_add fp (Finite 18) (f_mul fp (draw_temperature rnd) (Finite 10));
          humidity = f_add fp (Finite 40) (f_mul fp (draw_humidity rnd) (Finite 30));
          light = f_mul fp (draw_light rnd) (Finite 100)
      in \<lparr>temperature =
            Some (f_div fp (Math_round fp (f_mul fp temperature (Finite 10))) (Finite 10)),
          humidity = Some (Math_round fp humidity),
          tempAlert = f_less fp (Finite 26) temperature,
          light = Some (Math_round fp light),
          lightIsDark = f_less fp light (Finite 30),
          motion = f_less fp literal_0_7 (draw_motion rnd),
          lastMotion =
            Some (f_sub fp (Finite (of_int now)) (f_mul fp (draw_last_motion rnd) (Finite 60000))),
          isConnected = True,
          lastUpdated = now\<rparr>)"

text \<open>
  What the device returns to \<open>fetchSensorData\<close>: \<open>fetch\<close> rejects (a network failure, or
  the abort of the five-second timer), or resolves with a status and the result of
  \<open>response.json()\<close>. Every awaited promise is taken to settle.
\<close>

datatype sensor_fetch =
    Sensor_rejected js_error
  | Sensor_response nat "js_error + json"

record sensor_env =
  VITE_SIMULATION_MODE :: env_value
  VITE_RASPBERRY_PI_IP :: "string option"
  arith :: ieee
  random :: draws
  clock :: int
  loaded_at :: int
  device :: sensor_fetch

definition PI_IP :: "sensor_env \<Rightarrow> string option" where
  "PI_IP env = env_or (VITE_RASPBERRY_PI_IP env) (Some [])"

definition number_or_null :: "json option \<Rightarrow> jsnum option" where
  "number_or_null v = (case v of Some (JNum n) \<Rightarrow> Some n | _ \<Rightarrow> None)"

definition Boolean :: "json option \<Rightarrow> bool" where
  "Boolean v = truthy_opt v"

definition field :: "json \<Rightarrow> string \<Rightarrow> json option" where
  "field data k = (case prop_of data (ascii k) of Inl e \<Rightarrow> None | Inr v \<Rightarrow> v)"

text \<open>
  The body of the \<open>try\<close> block after the \<open>fetch\<close> has settled. The first property read
  throws when \<open>data\<close> is \<open>null\<close>; the later ones read the same value.
\<close>

definition sensor_try :: "sensor_fetch \<Rightarrow> int \<Rightarrow> js_error + SensorData" where
  "sensor_try f now =
     (case f of
        Sensor_rejected e \<Rightarrow> Inl e
      | Sensor_response st js \<Rightarrow>
          if \<not> response_ok st then Inl (Error (''Sensor API error: '' @ decimal st))
          else (case js of
                  Inl e \<Rightarrow> Inl e
                | Inr data \<Rightarrow>
                    (case prop_of data (ascii ''temperature'') of
                       Inl e \<Rightarrow> Inl e
                     | Inr t \<Rightarrow>
                         Inr \<lparr>temperature = number_or_null t,
                              humidity = number_or_null (field data ''humidity''),
                              tempAlert = Boolean (field data ''temp_alert''),
                              light = number_or_null (field data ''light''),
                              lightIsDark = Boolean (field data ''light_is_dark''),
                              motion = Boolean (field data ''motion''),
                              lastMotion = number_or_null (field data ''last_motion''),
                              isConnected = True,
                              lastUpdated = now\<rparr>)))"

text \<open>
  \<open>fetchSensorData\<close> as the promise it returns: \<open>Inr\<close> a value it resolves with, \<open>Inl\<close> an
  error it rejects with.
\<close>

definition fetchSensorData :: "sensor_env \<Rightarrow> js_error + SensorData" where
  "fetchSensorData env =
     (if isSimulationMode (VITE_SIMULATION_MODE env)
      then Inr (generateSimulatedSensorData (arith env) (random env) (clock env))
      else if \<not> env_truthy (PI_IP env)
      then Inr ((DEFAULT_SENSOR_DATA (loaded_at env))\<lparr>lastUpdated := clock env\<rparr>)
      else (case sensor_try (device env) (clock env) of
              Inl e \<Rightarrow> Inr ((DEFAULT_SENSOR_DATA (loaded_at env))\<lparr>lastUpdated := clock env\<rparr>)
            | Inr d \<Rightarrow> Inr d))"


section \<open>Example sessions, conversations and responses\<close>

text \<open>
  Concrete inputs for the examples below. \<open>session0\<close> is a hook just started in a quiet
  room; \<open>spoken0\<close> and \<open>silent0\<close> are sessions about to finish with a clip of 5000 bytes
  after speech and with a clip of 500 bytes without; \<open>env0\<close> answers the upload with
  \<open>{"text": " P\<dots>rsh\<dots>ndetje "}\<close>, the two missing letters being the code unit \<open>0xEB\<close>.
  \<open>pf0\<close> is a platform whose \<open>JSON.parse\<close> is given at the texts the examples parse: three
  chat-completion chunks and \<open>null\<close>; it throws on every other text, \<open>bad_json\<close> among them.
  \<open>exact_arith\<close> computes on the finite values without rounding, as IEEE arithmetic does
  wherever the exact result is a double; the draws of \<open>sensor_env0\<close> are such.
\<close>

definition session0 :: stt where
  "session0 = startListening Granted (replicate 128 5) 1000 initial_stt"

definition spoken0 :: stt where
  "spoken0 = session0\<lparr>isSpeechDetectedRef := True, lastSpeechTimeRef := 1500,
     audioChunksRef := [replicate 3000 7, replicate 2000 9]\<rparr>"

definition silent0 :: stt where
  "silent0 = session0\<lparr>audioChunksRef := [replicate 500 7]\<rparr>"

definition env0 :: stt_env where
  "env0 = \<lparr>VITE_GROQ_API_KEY = Some ''gsk_k'', VITE_GEMINI_API_KEY = None,
     upload = Fetch_response 200 (Inr (JObj [(text_key,
        JStr ([0x20] @ ascii ''P'' @ [0xEB] @ ascii ''rsh'' @ [0xEB] @ ascii ''ndetje'' @ [0x20]))]))\<rparr>"

definition user_turn :: "ustring \<Rightarrow> ChatMessage" where
  "user_turn m = \<lparr>role = User, content = JStr m\<rparr>"

definition system_turn :: ChatMessage where
  "system_turn = \<lparr>role = System, content = JStr SYSTEM_PROMPT\<rparr>"

definition assistant_turn :: "ustring \<Rightarrow> ChatMessage" where
  "assistant_turn m = \<lparr>role = Assistant, content = JStr m\<rparr>"

definition chat0 :: chat where
  "chat0 = \<lparr>conversationHistory = [], requests = []\<rparr>"

definition env429 :: chat_env where
  "env429 = \<lparr>GROQ_API_KEY = Some ''gsk_k'', GEMINI_API_KEY = None,
     reply = Chat_response 429 (Inr (ascii ''slow down'')) (Inl SyntaxError),
     stream = Stream_rejected TypeError\<rparr>"

definition env429_unread :: chat_env where
  "env429_unread = env429\<lparr>reply := Chat_response 429 (Inl TypeError) (Inl TypeError)\<rparr>"

definition hi_json :: ustring where
  \<open>hi_json = ascii ''{"choices":[{"delta":{"content":"hi"}}]}''\<close>

definition empty_json :: ustring where
  \<open>empty_json = ascii ''{"choices":[{"delta":{"role":"assistant","content":""}}]}''\<close>

definition bad_json :: ustring where
  \<open>bad_json = ascii ''{"choices":[{"del''\<close>

definition method_json :: ustring where
  \<open>method_json = ascii ''{"choices":[{"delta":{"content":{"toString":1}}}]}''\<close>

definition pf0 :: platform where
  "pf0 = \<lparr>JSON_parse = (\<lambda>s.
       if s = hi_json
       then Some (JObj [(choices_key, JArr [JObj [(delta_key, JObj [(content_key, JStr (ascii ''hi''))])]])])
       else if s = empty_json
       then Some (JObj [(choices_key, JArr [JObj [(delta_key,
              JObj [(ascii ''role'', JStr (ascii ''assistant'')), (content_key, JStr [])])]])])
       else if s = method_json
       then Some (JObj [(choices_key, JArr [JObj [(delta_key,
              JObj [(content_key, JObj [(ascii ''toString'', JNum (Finite 1))])])]])])
       else if s = ascii ''null'' then Some JNull
       else None),
     Number_toString = (\<lambda>n. ascii ''0'')\<rparr>"

definition hi_line :: ustring where
  "hi_line = data_prefix @ hi_json"

definition empty_line :: ustring where
  "empty_line = data_prefix @ empty_json"

definition bad_line :: ustring where
  "bad_line = data_prefix @ bad_json"

definition method_line :: ustring where
  "method_line = data_prefix @ method_json"

definition full7 :: chat where
  "full7 = \<lparr>conversationHistory =
      [system_turn, user_turn (ascii ''q1''), assistant_turn (ascii ''a1''),
       user_turn (ascii ''q2''), assistant_turn (ascii ''a2''),
       user_turn (ascii ''q3''), assistant_turn (ascii ''a3'')], requests = []\<rparr>"

definition env_stream :: chat_env where
  "env_stream = \<lparr>GROQ_API_KEY = Some ''gsk_k'', GEMINI_API_KEY = None,
     reply = Chat_rejected TypeError,
     stream = Stream_response 200 (Some \<lparr>chunks =
        [bad_line @ [0xA] @ hi_line @ [0xA, 0xA], done_line @ [0xA, 0xA]], read_error = None\<rparr>)\<rparr>"

definition env_after_done :: chat_env where
  "env_after_done = env_stream\<lparr>stream := Stream_response 200 (Some \<lparr>chunks =
        [done_line @ [0xA] @ hi_line @ [0xA]], read_error = None\<rparr>)\<rparr>"

definition env_method :: chat_env where
  "env_method = env_stream\<lparr>stream := Stream_response 200 (Some \<lparr>chunks =
        [method_line @ [0xA]], read_error = None\<rparr>)\<rparr>"

definition env_cut :: chat_env where
  "env_cut = env_stream\<lparr>stream := Stream_response 200
     (Some \<lparr>chunks = [take 20 hi_line, drop 20 hi_line @ [0xA]], read_error = None\<rparr>)\<rparr>"

definition offline :: "int \<Rightarrow> SensorData" where
  "offline now =
     \<lparr>temperature = None, humidity = None, tempAlert = False, light = None,
      lightIsDark = False, motion = False, lastMotion = None, isConnected = False,
      lastUpdated = now\<rparr>"

definition finite_part :: "jsnum \<Rightarrow> real" where
  "finite_part n = (case n of Finite r \<Rightarrow> r | _ \<Rightarrow> 0)"

definition exact_arith :: ieee where
  "exact_arith =
     \<lparr>f_add = (\<lambda>a b. Finite (finite_part a + finite_part b)),
      f_sub = (\<lambda>a b. Finite (finite_part a - finite_part b)),
      f_mul = (\<lambda>a b. Finite (finite_part a * finite_part b)),
      f_div = (\<lambda>a b. Finite (finite_part a / finite_part b)),
      Math_round = (\<lambda>a. Finite (of_int \<lfloor>finite_part a + 1 / 2\<rfloor>)),
      f_less = (\<lambda>a b. finite_part a < finite_part b)\<rparr>"

definition sensor_env0 :: sensor_env where
  "sensor_env0 =
     \<lparr>VITE_SIMULATION_MODE = Env_undefined, VITE_RASPBERRY_PI_IP = Some ''192.168.1.20'',
      arith = exact_arith,
      random = \<lparr>draw_temperature = Finite (1/2), draw_humidity = Finite (1/2),
        draw_light = Finite (1/4), draw_motion = Finite (3/4), draw_last_motion = Finite 0\<rparr>,
      clock = 5000, loaded_at = 17,
      device = Sensor_response 200 (Inr (JObj
        [(ascii ''temperature'', JStr (ascii ''21.5'')),
         (ascii ''light'', JNum (Finite 64)),
         (ascii ''temp_alert'', JStr (ascii ''no'')),
         (ascii ''motion'', JBool True)]))\<rparr>"


section \<open>Teardown: \<open>stopListening\<close> and \<open>cleanupAudio\<close>\<close>

lemma stop_if_active_Inr: "\<exists>s'. stop_if_active s = Inr s' \<and> \<not> recorder_active s'
   \<and> animationFrameRef s' = animationFrameRef s \<and> sourceRef s' = sourceRef s \<and> analyserRef s' = analyserRef s
   \<and> audioContextRef s' = audioContextRef s"
  by (auto simp: stop_if_active_def recorder_active_def MediaRecorder_stop_def split: option.splits recorder_state.splits)

lemma stop_if_active_id: "\<not> recorder_active s \<Longrightarrow> stop_if_active s = Inr s"
  by (simp add: stop_if_active_def)

lemma cancel_frame_ref_fields:
  "mediaRecorderRef (cancel_frame_ref s) = mediaRecorderRef s"
  "sourceRef (cancel_frame_ref s) = sourceRef s"
  "analyserRef (cancel_frame_ref s) = analyserRef s"
  "audioContextRef (cancel_frame_ref s) = audioContextRef s"
  "animationFrameRef (cancel_frame_ref s) = None \<or> animationFrameRef (cancel_frame_ref s) = Some 0"
  by (auto simp: cancel_frame_ref_def cancelAnimationFrame_def split: option.splits)

lemma cancel_frame_ref_id: "animationFrameRef s = None \<or> animationFrameRef s = Some 0 \<Longrightarrow> cancel_frame_ref s = s"
  by (auto simp: cancel_frame_ref_def)

lemma stopListening_stopped: "\<exists>s'. stopListening s = Inr s' \<and> stopped s'"
proof -
  obtain s1 where s1: "stop_if_active s = Inr s1" "\<not> recorder_active s1"
    using stop_if_active_Inr [of s] by blast
  have "stopped (cancel_frame_ref s1)"
    using s1(2) cancel_frame_ref_fields(5) [of s1]
    by (simp add: stopped_def recorder_active_def cancel_frame_ref_fields(1))
  with s1(1) show ?thesis by (simp add: stopListening_def)
qed

lemma stopped_fix: "stopped s \<Longrightarrow> stopListening s = Inr s"
  by (simp add: stopped_def stopListening_def stop_if_active_id cancel_frame_ref_id)

lemma teardown_fields:
  "mediaRecorderRef (disconnect_source s) = mediaRecorderRef s"
  "animationFrameRef (disconnect_source s) = animationFrameRef s"
  "analyserRef (disconnect_source s) = analyserRef s"
  "audioContextRef (disconnect_source s) = audioContextRef s"
  "sourceRef (disconnect_source s) = None"
  "mediaRecorderRef (disconnect_analyser s) = mediaRecorderRef s"
  "animationFrameRef (disconnect_analyser s) = animationFrameRef s"
  "sourceRef (disconnect_analyser s) = sourceRef s"
  "audioContextRef (disconnect_analyser s) = audioContextRef s"
  "analyserRef (disconnect_analyser s) = None"
  "mediaRecorderRef (close_context s) = mediaRecorderRef s"
  "animationFrameRef (close_context s) = animationFrameRef s"
  "sourceRef (close_context s) = sourceRef s"
  "analyserRef (close_context s) = analyserRef s"
  "audioContextRef (close_context s) = None \<or> audioContextRef (close_context s) = Some Closed"
  by (auto simp: disconnect_source_def disconnect_analyser_def close_context_def)

lemma teardown_id:
  "sourceRef s = None \<Longrightarrow> disconnect_source s = s"
  "analyserRef s = None \<Longrightarrow> disconnect_analyser s = s"
  "audioContextRef s = None \<or> audioContextRef s = Some Closed \<Longrightarrow> close_context s = s"
  by (auto simp: disconnect_source_def disconnect_analyser_def close_context_def)

lemma cleanupAudio_torn_down: "\<exists>s'. cleanupAudio s = Inr s' \<and> torn_down s'"
proof -
  obtain s1 where s1: "stop_if_active s = Inr s1" "\<not> recorder_active s1"
    using stop_if_active_Inr [of s] by blast
  let ?t = "close_context (disconnect_analyser (disconnect_source (cancel_frame_ref s1)))"
  have "torn_down ?t"
    using s1(2) cancel_frame_ref_fields(5) [of s1]
      teardown_fields(15) [of "disconnect_analyser (disconnect_source (cancel_frame_ref s1))"]
    by (simp add: torn_down_def stopped_def recorder_active_def cancel_frame_ref_fields(1) teardown_fields(1-14))
  with s1(1) show ?thesis by (simp add: cleanupAudio_def)
qed

lemma torn_down_fix: "torn_down s \<Longrightarrow> cleanupAudio s = Inr s"
  by (simp add: torn_down_def stopped_def cleanupAudio_def stop_if_active_id cancel_frame_ref_id teardown_id)

lemma torn_down_stopped: "torn_down s \<Longrightarrow> stopped s"
  by (simp add: torn_down_def)

text \<open>
  Claim C9. The teardown is idempotent. \<open>stopListening\<close> never throws, and after it a second
  \<open>stopListening\<close> returns the state unchanged: no call on the recorder, no cancellation,
  no write to a ref. The same holds for \<open>cleanupAudio\<close>, and for \<open>stopListening\<close> after
  \<open>cleanupAudio\<close>. The auto-stop of the VAD loop and the caller's stop are both calls of
  \<open>stopListening\<close>, so whichever comes second finds the recorder inactive and the frame
  handle cleared. \<open>MediaRecorder.stop\<close> on an inactive recorder would throw
  \<open>InvalidStateError\<close>; the guard of both routines keeps it from being called there.
\<close>

theorem teardown_idempotent:
  "(\<exists>s1. stopListening s = Inr s1 \<and> stopListening s1 = Inr s1) \<and>
   (\<exists>s2. cleanupAudio s = Inr s2 \<and> cleanupAudio s2 = Inr s2 \<and> stopListening s2 = Inr s2)"
proof
  obtain s1 where "stopListening s = Inr s1" "stopped s1"
    using stopListening_stopped [of s] by blast
  then show "\<exists>s1. stopListening s = Inr s1 \<and> stopListening s1 = Inr s1"
    by (simp add: stopped_fix)
next
  obtain s2 where "cleanupAudio s = Inr s2" "torn_down s2"
    using cleanupAudio_torn_down [of s] by blast
  then show "\<exists>s2. cleanupAudio s = Inr s2 \<and> cleanupAudio s2 = Inr s2 \<and> stopListening s2 = Inr s2"
    by (simp add: torn_down_fix torn_down_stopped stopped_fix)
qed

section \<open>The VAD loop\<close>

lemma schedule_eq: "schedule s = s\<lparr>frameCounter := Suc (frameCounter s), frames := frames s @ [Suc (frameCounter s)],
    calls := calls s @ [RequestAnimationFrame (Suc (frameCounter s))], animationFrameRef := Some (Suc (frameCounter s))\<rparr>"
  by (simp add: schedule_def requestAnimationFrame_def Let_def)

lemma checkVolume_cases:
  assumes "analyserRef s = Some a"
  shows "average (getByteFrequencyData a bins) > VAD_THRESHOLD \<Longrightarrow>
           checkVolume bins now s = Inr (schedule (s\<lparr>isSpeechDetectedRef := True, lastSpeechTimeRef := now\<rparr>))"
    and "\<not> average (getByteFrequencyData a bins) > VAD_THRESHOLD \<Longrightarrow> \<not> isSpeechDetectedRef s \<Longrightarrow>
           checkVolume bins now s = Inr (schedule s)"
    and "\<not> average (getByteFrequencyData a bins) > VAD_THRESHOLD \<Longrightarrow> now - lastSpeechTimeRef s \<le> SILENCE_DURATION \<Longrightarrow>
           checkVolume bins now s = Inr (schedule s)"
    and "\<not> average (getByteFrequencyData a bins) > VAD_THRESHOLD \<Longrightarrow> isSpeechDetectedRef s \<Longrightarrow> now - lastSpeechTimeRef s > SILENCE_DURATION \<Longrightarrow>
           checkVolume bins now s = stopListening s"
  using assms by (simp_all add: checkVolume_def schedule_def Let_def SILENCE_DURATION_def split_def)

lemma checkVolume_no_analyser: "analyserRef s = None \<Longrightarrow> checkVolume bins now s = Inr s"
  by (simp add: checkVolume_def)

lemma stop_if_active_flag: "stop_if_active s = Inr s' \<Longrightarrow> isSpeechDetectedRef s' = isSpeechDetectedRef s"
  by (auto simp: stop_if_active_def recorder_active_def MediaRecorder_stop_def split: option.splits recorder_state.splits if_splits)

lemma cancel_frame_ref_flag: "isSpeechDetectedRef (cancel_frame_ref s) = isSpeechDetectedRef s"
  by (auto simp: cancel_frame_ref_def cancelAnimationFrame_def split: option.splits)

lemma stopListening_flag: "\<exists>s'. stopListening s = Inr s' \<and> isSpeechDetectedRef s' = isSpeechDetectedRef s"
proof -
  obtain s1 where s1: "stop_if_active s = Inr s1" using stop_if_active_Inr [of s] by blast
  then show ?thesis by (simp add: stopListening_def cancel_frame_ref_flag stop_if_active_flag)
qed

lemma cleanupAudio_flag: "\<exists>s'. cleanupAudio s = Inr s' \<and> isSpeechDetectedRef s' = isSpeechDetectedRef s"
proof -
  obtain s1 where s1: "stop_if_active s = Inr s1" using stop_if_active_Inr [of s] by blast
  then show ?thesis
    by (simp add: cleanupAudio_def cancel_frame_ref_flag stop_if_active_flag
        close_context_def disconnect_analyser_def disconnect_source_def)
qed

lemma checkVolume_flag:
  "\<exists>s'. checkVolume bins now s = Inr s' \<and> (isSpeechDetectedRef s \<longrightarrow> isSpeechDetectedRef s')"
proof (cases "analyserRef s")
  case None
  then show ?thesis by (simp add: checkVolume_no_analyser)
next
  case (Some a)
  show ?thesis
  proof (cases "average (getByteFrequencyData a bins) > VAD_THRESHOLD")
    case True
    then show ?thesis using checkVolume_cases(1) [OF Some, of bins now] by (simp add: schedule_eq)
  next
    case quiet: False
    show ?thesis
    proof (cases "isSpeechDetectedRef s \<and> now - lastSpeechTimeRef s > SILENCE_DURATION")
      case True
      then show ?thesis using checkVolume_cases(4) [OF Some quiet, of now] stopListening_flag [of s] by auto
    next
      case False
      then have "checkVolume bins now s = Inr (schedule s)"
        using checkVolume_cases(2,3) [OF Some quiet, of now] by fastforce
      then show ?thesis by (simp add: schedule_eq)
    qed
  qed
qed

lemma processAudio_flag: "isSpeechDetectedRef (processAudio env b s) = isSpeechDetectedRef s"
  by (auto simp: processAudio_def apply_response_def Let_def split: stt_fetch.splits sum.splits option.splits json.splits)

lemma onstop_flag: "isSpeechDetectedRef (onstop env captured s) = isSpeechDetectedRef s"
  by (simp add: onstop_def Let_def processAudio_flag)

lemma step_flag: "\<exists>s'. step e s = Inr s' \<and> (isSpeechDetectedRef s \<longrightarrow> isSpeechDetectedRef s')"
proof (cases e)
  case (Frame bins now)
  show ?thesis
  proof (cases "frames s")
    case Nil
    with Frame show ?thesis by simp
  next
    case (Cons h hs)
    with Frame checkVolume_flag [of bins now "s\<lparr>frames := hs\<rparr>"] show ?thesis by simp
  qed
next
  case StopListening
  then show ?thesis using stopListening_flag [of s] by auto
next
  case CleanupAudio
  then show ?thesis using cleanupAudio_flag [of s] by auto
next
  case (DataAvailable d)
  then show ?thesis by (simp add: ondataavailable_def)
next
  case (OnStop env captured)
  then show ?thesis by (simp add: onstop_flag)
next
  case ResetTranscript
  then show ?thesis by (simp add: resetTranscript_def)
qed

lemma run_flag: "isSpeechDetectedRef s \<Longrightarrow> \<exists>s'. run es s = Inr s' \<and> isSpeechDetectedRef s'"
proof (induction es arbitrary: s)
  case Nil
  then show ?case by simp
next
  case (Cons e es)
  obtain s1 where s1: "step e s = Inr s1" "isSpeechDetectedRef s1"
    using step_flag [of e s] Cons.prems by blast
  from Cons.IH [OF s1(2)] s1(1) show ?case by simp
qed

lemma start_resets:
  "isSpeechDetectedRef (startListening Granted bins now s)
     = (average (getByteFrequencyData \<lparr>fftSize = 256\<rparr> bins) > VAD_THRESHOLD)"
proof -
  obtain s1 where s1: "cleanupAudio s = Inr s1" using cleanupAudio_torn_down [of s] by blast
  define s4 where "s4 = s1\<lparr>error := None, transcript := [],
                           streamCounter := Suc (streamCounter s1),
                           liveStreams := liveStreams s1 @ [Suc (streamCounter s1)],
                           audioContextRef := Some Running,
                           analyserRef := Some \<lparr>fftSize = 256\<rparr>,
                           sourceRef := Some Connected,
                           lastSpeechTimeRef := 0,
                           isSpeechDetectedRef := False, mediaRecorderRef := Some Recording,
                                audioChunksRef := [],
                                calls := calls s1 @ [Recorder_start],
                                isListening := True\<rparr>"
  have a: "analyserRef s4 = Some \<lparr>fftSize = 256\<rparr>" and f: "\<not> isSpeechDetectedRef s4" by (simp_all add: s4_def)
  have st: "startListening Granted bins now s = (case checkVolume bins now s4 of
                          Inl (e, s') \<Rightarrow> init_failed s'
                        | Inr s5 \<Rightarrow> s5)"
    by (simp add: startListening_def s1 s4_def Let_def)
  show ?thesis
  proof (cases "average (getByteFrequencyData \<lparr>fftSize = 256\<rparr> bins) > VAD_THRESHOLD")
    case True
    then show ?thesis using checkVolume_cases(1) [OF a, of bins now] st by (simp add: schedule_eq)
  next
    case False
    then show ?thesis using checkVolume_cases(2) [OF a, of bins now] f st by (simp add: schedule_eq)
  qed
qed

lemma listening_frame:
  assumes "listening s"
  obtains a h where "analyserRef s = Some a" "frames s = [h]" "animationFrameRef s = Some h" "h \<noteq> 0"
    "mediaRecorderRef s = Some Recording"
  using assms by (auto simp: listening_def split: option.splits)

lemma listening_schedule:
  "analyserRef s \<noteq> None \<Longrightarrow> mediaRecorderRef s = Some Recording \<Longrightarrow> frames s = [] \<Longrightarrow> listening (schedule s)"
  by (simp add: listening_def schedule_eq)

lemma schedule_fields:
  "analyserRef (schedule s) = analyserRef s"
  "isSpeechDetectedRef (schedule s) = isSpeechDetectedRef s"
  "lastSpeechTimeRef (schedule s) = lastSpeechTimeRef s"
  "stop_calls (schedule s) = stop_calls s"
  by (simp_all add: schedule_eq stop_calls_def)

lemma silent_tick:
  assumes "listening s" "quiet s bins" "isSpeechDetectedRef s \<longrightarrow> now - lastSpeechTimeRef s \<le> SILENCE_DURATION"
  shows "\<exists>s'. step (Frame bins now) s = Inr s' \<and> listening s' \<and> analyserRef s' = analyserRef s \<and>
           isSpeechDetectedRef s' = isSpeechDetectedRef s \<and> lastSpeechTimeRef s' = lastSpeechTimeRef s \<and>
           stop_calls s' = stop_calls s"
proof -
  from assms(1) obtain a h where s: "analyserRef s = Some a" "frames s = [h]" "mediaRecorderRef s = Some Recording"
    by (rule listening_frame)
  let ?p = "s\<lparr>frames := []\<rparr>"
  have a: "analyserRef ?p = Some a" using s by simp
  have q: "\<not> average (getByteFrequencyData a bins) > VAD_THRESHOLD"
    using assms(2) s by (simp add: quiet_def)
  have "checkVolume bins now ?p = Inr (schedule ?p)"
  proof (cases "isSpeechDetectedRef s")
    case True
    with assms(3) show ?thesis using checkVolume_cases(3) [OF a q, of now] by simp
  next
    case False
    then show ?thesis using checkVolume_cases(2) [OF a q, of now] by simp
  qed
  moreover have "listening (schedule ?p)" using s by (intro listening_schedule) simp_all
  ultimately show ?thesis using s by (simp add: schedule_fields) (simp add: stop_calls_def)
qed

lemma loud_tick:
  assumes "listening s" "\<not> quiet s bins"
  shows "\<exists>s'. step (Frame bins now) s = Inr s' \<and> listening s' \<and> analyserRef s' = analyserRef s \<and>
           isSpeechDetectedRef s' \<and> lastSpeechTimeRef s' = now \<and> stop_calls s' = stop_calls s"
proof -
  from assms(1) obtain a h where s: "analyserRef s = Some a" "frames s = [h]" "mediaRecorderRef s = Some Recording"
    by (rule listening_frame)
  let ?p = "s\<lparr>frames := []\<rparr>"
  let ?q = "?p\<lparr>isSpeechDetectedRef := True, lastSpeechTimeRef := now\<rparr>"
  have a: "analyserRef ?p = Some a" using s by simp
  have q: "average (getByteFrequencyData a bins) > VAD_THRESHOLD"
    using assms(2) s by (simp add: quiet_def)
  have "checkVolume bins now ?p = Inr (schedule ?q)"
    using checkVolume_cases(1) [OF a q, of now] by simp
  moreover have "listening (schedule ?q)" using s by (intro listening_schedule) simp_all
  ultimately show ?thesis using s by (simp add: schedule_fields) (simp add: stop_calls_def)
qed

lemma expired_tick:
  assumes "listening s" "quiet s bins" "isSpeechDetectedRef s" "now - lastSpeechTimeRef s > SILENCE_DURATION"
  shows "\<exists>s'. step (Frame bins now) s = Inr s' \<and> mediaRecorderRef s' = Some Inactive \<and> frames s' = [] \<and>
           animationFrameRef s' = None \<and> stop_calls s' = Suc (stop_calls s) \<and> isSpeechDetectedRef s'"
proof -
  from assms(1) obtain a h where s: "analyserRef s = Some a" "frames s = [h]" "animationFrameRef s = Some h" "h \<noteq> 0"
    "mediaRecorderRef s = Some Recording"
    by (rule listening_frame)
  let ?p = "s\<lparr>frames := []\<rparr>"
  have a: "analyserRef ?p = Some a" using s by simp
  have q: "\<not> average (getByteFrequencyData a bins) > VAD_THRESHOLD"
    using assms(2) s by (simp add: quiet_def)
  have "checkVolume bins now ?p = stopListening ?p"
    using checkVolume_cases(4) [OF a q, of now] assms(3,4) by simp
  moreover have "stopListening ?p = Inr (?p\<lparr>mediaRecorderRef := Some Inactive, calls := calls s @ [Recorder_stop],
      frames := [], calls := calls s @ [Recorder_stop, CancelAnimationFrame h], animationFrameRef := None\<rparr>)"
    using s by (simp add: stopListening_def stop_if_active_def recorder_active_def MediaRecorder_stop_def
        cancel_frame_ref_def cancelAnimationFrame_def)
  ultimately show ?thesis using s assms(3) by (simp add: stop_calls_def)
qed

lemma no_frame_no_tick: "frames s = [] \<Longrightarrow> step (Frame bins now) s = Inr s"
  by simp

lemma manual_stop:
  assumes "listening s"
  shows "\<exists>s'. stopListening s = Inr s' \<and> mediaRecorderRef s' = Some Inactive \<and> frames s' = [] \<and>
           animationFrameRef s' = None \<and> stop_calls s' = Suc (stop_calls s)"
proof -
  from assms(1) obtain a h where s: "analyserRef s = Some a" "frames s = [h]" "animationFrameRef s = Some h" "h \<noteq> 0"
    "mediaRecorderRef s = Some Recording"
    by (rule listening_frame)
  then show ?thesis
    by (simp add: stopListening_def stop_if_active_def recorder_active_def MediaRecorder_stop_def
        cancel_frame_ref_def cancelAnimationFrame_def stop_calls_def)
qed

lemma silent_run:
  assumes "listening s"
    and "\<forall>(bins, now) \<in> set ts. quiet s bins \<and> (isSpeechDetectedRef s \<longrightarrow> now - lastSpeechTimeRef s \<le> SILENCE_DURATION)"
  shows "\<exists>s'. run (ticks ts) s = Inr s' \<and> listening s' \<and> analyserRef s' = analyserRef s \<and>
           isSpeechDetectedRef s' = isSpeechDetectedRef s \<and> lastSpeechTimeRef s' = lastSpeechTimeRef s \<and>
           stop_calls s' = stop_calls s"
  using assms
proof (induction ts arbitrary: s)
  case Nil
  then show ?case by (simp add: ticks_def)
next
  case (Cons bt ts)
  obtain bins now where bt: "bt = (bins, now)" by (cases bt)
  from Cons.prems(2) bt have q: "quiet s bins" "isSpeechDetectedRef s \<longrightarrow> now - lastSpeechTimeRef s \<le> SILENCE_DURATION"
    by auto
  from silent_tick [OF Cons.prems(1) q] obtain s1 where s1:
    "step (Frame bins now) s = Inr s1" "listening s1" "analyserRef s1 = analyserRef s"
    "isSpeechDetectedRef s1 = isSpeechDetectedRef s" "lastSpeechTimeRef s1 = lastSpeechTimeRef s"
    "stop_calls s1 = stop_calls s" by blast
  have "\<forall>(bins, now) \<in> set ts. quiet s1 bins \<and> (isSpeechDetectedRef s1 \<longrightarrow> now - lastSpeechTimeRef s1 \<le> SILENCE_DURATION)"
    using Cons.prems(2) s1(3,4,5) by (auto simp: quiet_def)
  from Cons.IH [OF s1(2) this] obtain s' where
    "run (ticks ts) s1 = Inr s'" "listening s'" "analyserRef s' = analyserRef s1"
    "isSpeechDetectedRef s' = isSpeechDetectedRef s1" "lastSpeechTimeRef s' = lastSpeechTimeRef s1"
    "stop_calls s' = stop_calls s1" by blast
  with s1 bt show ?case by (simp add: ticks_def)
qed

lemma quiet_frames_keep_listening:
  assumes "listening s" "\<not> isSpeechDetectedRef s" "\<forall>(bins, now) \<in> set ts. quiet s bins"
  shows "\<exists>s' s''. run (ticks ts) s = Inr s' \<and> listening s' \<and> \<not> isSpeechDetectedRef s' \<and>
           stop_calls s' = stop_calls s \<and>
           stopListening s' = Inr s'' \<and> mediaRecorderRef s'' = Some Inactive \<and> frames s'' = [] \<and>
           animationFrameRef s'' = None"
proof -
  have "\<forall>(bins, now) \<in> set ts. quiet s bins \<and> (isSpeechDetectedRef s \<longrightarrow> now - lastSpeechTimeRef s \<le> SILENCE_DURATION)"
    using assms(2,3) by auto
  from silent_run [OF assms(1) this] obtain s' where s': "run (ticks ts) s = Inr s'" "listening s'"
    "isSpeechDetectedRef s' = isSpeechDetectedRef s" "stop_calls s' = stop_calls s" by blast
  from manual_stop [OF s'(2)] s' assms(2) show ?thesis by auto
qed

text \<open>
  Claim C3. In a running session, let a frame at time \<open>t0\<close> measure an average above the
  threshold, and let every later frame measure an average not above it. While the frames
  come at times no more than \<open>SILENCE_DURATION = 1500\<close> ms after \<open>t0\<close>, the session keeps
  listening and the recorder is not stopped. The first frame at a time more than 1500 ms
  after \<open>t0\<close> stops the recorder (one more call of \<open>MediaRecorder.stop\<close>), clears the handle
  and leaves no frame pending, so that no later frame event changes anything.
\<close>

theorem auto_stop_after_silence:
  assumes "listening s" "\<not> quiet s bins0"
    and "\<forall>(bins, now) \<in> set ts. quiet s bins \<and> now - t0 \<le> SILENCE_DURATION"
    and "quiet s bins1" "t1 - t0 > SILENCE_DURATION"
  shows "\<exists>s1 s2. run (ticks ((bins0, t0) # ts)) s = Inr s1 \<and> listening s1 \<and> stop_calls s1 = stop_calls s \<and>
           step (Frame bins1 t1) s1 = Inr s2 \<and> mediaRecorderRef s2 = Some Inactive \<and>
           stop_calls s2 = Suc (stop_calls s) \<and> frames s2 = [] \<and> animationFrameRef s2 = None \<and>
           (\<forall>bins now. step (Frame bins now) s2 = Inr s2)"
proof -
  from loud_tick [OF assms(1,2), of t0] obtain sa where sa:
    "step (Frame bins0 t0) s = Inr sa" "listening sa" "analyserRef sa = analyserRef s"
    "isSpeechDetectedRef sa" "lastSpeechTimeRef sa = t0" "stop_calls sa = stop_calls s" by blast
  have "\<forall>(bins, now) \<in> set ts. quiet sa bins \<and> (isSpeechDetectedRef sa \<longrightarrow> now - lastSpeechTimeRef sa \<le> SILENCE_DURATION)"
    using assms(3) sa(3,5) by (auto simp: quiet_def)
  from silent_run [OF sa(2) this] obtain s1 where s1: "run (ticks ts) sa = Inr s1" "listening s1"
    "analyserRef s1 = analyserRef sa" "isSpeechDetectedRef s1 = isSpeechDetectedRef sa"
    "lastSpeechTimeRef s1 = lastSpeechTimeRef sa" "stop_calls s1 = stop_calls sa" by blast
  have q1: "quiet s1 bins1" using assms(4) s1(3) sa(3) by (simp add: quiet_def)
  have "isSpeechDetectedRef s1" "t1 - lastSpeechTimeRef s1 > SILENCE_DURATION"
    using s1(4,5) sa(4,5) assms(5) by simp_all
  from expired_tick [OF s1(2) q1 this] obtain s2 where s2:
    "step (Frame bins1 t1) s1 = Inr s2" "mediaRecorderRef s2 = Some Inactive" "frames s2 = []"
    "animationFrameRef s2 = None" "stop_calls s2 = Suc (stop_calls s1)" by blast
  have "run (ticks ((bins0, t0) # ts)) s = Inr s1" using sa(1) s1(1) by (simp add: ticks_def)
  moreover have "\<forall>bins now. step (Frame bins now) s2 = Inr s2" using s2(3) by simp
  ultimately show ?thesis using s1 s2 sa by auto
qed

lemma cleanupAudio_frames:
  assumes "tidy s"
  shows "\<exists>s1. cleanupAudio s = Inr s1 \<and> frames s1 = []"
proof -
  have "\<exists>s0. stop_if_active s = Inr s0 \<and> frames s0 = frames s \<and> animationFrameRef s0 = animationFrameRef s"
    by (auto simp: stop_if_active_def recorder_active_def MediaRecorder_stop_def split: option.splits recorder_state.splits)
  then obtain s0 where s0: "stop_if_active s = Inr s0" "frames s0 = frames s" "animationFrameRef s0 = animationFrameRef s"
    by blast
  have "frames (cancel_frame_ref s0) = []"
    using assms s0(2,3) by (auto simp: tidy_def cancel_frame_ref_def cancelAnimationFrame_def split: option.splits)
  then show ?thesis using s0(1)
    by (simp add: cleanupAudio_def close_context_def disconnect_analyser_def disconnect_source_def)
qed

text \<open>
  A successful \<open>startListening\<close> on a tidy hook leaves it listening, with speech detected
  exactly when the first reading is loud.
\<close>

lemma session_start:
  assumes "tidy s"
  shows "listening (startListening Granted bins now s)"
    and "analyserRef (startListening Granted bins now s) = Some \<lparr>fftSize = 256\<rparr>"
    and "isSpeechDetectedRef (startListening Granted bins now s) = loud bins"
    and "loud bins \<Longrightarrow> lastSpeechTimeRef (startListening Granted bins now s) = now"
proof -
  obtain s1 where s1: "cleanupAudio s = Inr s1" "frames s1 = []" using cleanupAudio_frames [OF assms] by blast
  define s4 where "s4 = s1\<lparr>error := None, transcript := [],
                           streamCounter := Suc (streamCounter s1),
                           liveStreams := liveStreams s1 @ [Suc (streamCounter s1)],
                           audioContextRef := Some Running,
                           analyserRef := Some \<lparr>fftSize = 256\<rparr>,
                           sourceRef := Some Connected,
                           lastSpeechTimeRef := 0,
                           isSpeechDetectedRef := False, mediaRecorderRef := Some Recording,
                                audioChunksRef := [],
                                calls := calls s1 @ [Recorder_start],
                                isListening := True\<rparr>"
  have a: "analyserRef s4 = Some \<lparr>fftSize = 256\<rparr>" and f: "\<not> isSpeechDetectedRef s4"
    and r: "mediaRecorderRef s4 = Some Recording" and fr: "frames s4 = []"
    by (simp_all add: s4_def s1(2))
  have st: "startListening Granted bins now s = (case checkVolume bins now s4 of
                          Inl (e, s') \<Rightarrow> init_failed s'
                        | Inr s5 \<Rightarrow> s5)"
    by (simp add: startListening_def s1 s4_def Let_def)
  have "listening (startListening Granted bins now s) \<and>
        analyserRef (startListening Granted bins now s) = Some \<lparr>fftSize = 256\<rparr> \<and>
        isSpeechDetectedRef (startListening Granted bins now s) = loud bins \<and>
        (loud bins \<longrightarrow> lastSpeechTimeRef (startListening Granted bins now s) = now)"
  proof (cases "loud bins")
    case True
    then have "startListening Granted bins now s = schedule (s4\<lparr>isSpeechDetectedRef := True, lastSpeechTimeRef := now\<rparr>)"
      using checkVolume_cases(1) [OF a, of bins now] st by (simp add: loud_def)
    then show ?thesis using a r fr True by (simp add: listening_schedule schedule_fields)
  next
    case False
    then have "startListening Granted bins now s = schedule s4"
      using checkVolume_cases(2) [OF a, of bins now] f st by (simp add: loud_def)
    then show ?thesis using a r fr f False by (simp add: listening_schedule schedule_fields)
  qed
  then show "listening (startListening Granted bins now s)"
    and "analyserRef (startListening Granted bins now s) = Some \<lparr>fftSize = 256\<rparr>"
    and "isSpeechDetectedRef (startListening Granted bins now s) = loud bins"
    and "loud bins \<Longrightarrow> lastSpeechTimeRef (startListening Granted bins now s) = now"
    by simp_all
qed

text \<open>
  Claim C2. Let a session start (\<open>startListening\<close> with the microphone granted, on a hook
  with no stray frame request), and let the average energy not be above the threshold at
  the first volume check nor on any of the frames that follow, however many. The run does
  not throw; after it the session is still listening, with the next tick pending, speech
  is still not detected, and no call of \<open>MediaRecorder.stop\<close> has been made since the start:
  there is no auto-stop. An explicit \<open>stopListening\<close> then ends the session: the recorder is
  stopped, no frame is pending and the handle is cleared.
\<close>

theorem no_auto_stop_without_speech:
  assumes "tidy s0" "\<not> loud bins0" "\<forall>(bins, now) \<in> set ts. \<not> loud bins"
  shows "\<exists>s' s''. run (ticks ts) (startListening Granted bins0 now0 s0) = Inr s' \<and> listening s' \<and>
           \<not> isSpeechDetectedRef s' \<and>
           stop_calls s' = stop_calls (startListening Granted bins0 now0 s0) \<and>
           stopListening s' = Inr s'' \<and> mediaRecorderRef s'' = Some Inactive \<and> frames s'' = [] \<and>
           animationFrameRef s'' = None"
proof -
  let ?s = "startListening Granted bins0 now0 s0"
  note st = session_start [OF assms(1), of bins0 now0]
  have "\<forall>(bins, now) \<in> set ts. quiet ?s bins" using assms(3) st(2) by (auto simp: quiet_def loud_def)
  moreover have "\<not> isSpeechDetectedRef ?s" using st(3) assms(2) by simp
  ultimately show ?thesis using quiet_frames_keep_listening [OF st(1)] by simp
qed

text \<open>
  The auto-stop after silence when the speech is heard at the first volume check of the
  session, inside \<open>startListening\<close>, and not on a later frame.
\<close>

lemma auto_stop_after_first_check:
  assumes "tidy s0" "loud bins0"
    and "\<forall>(bins, now) \<in> set ts. \<not> loud bins \<and> now - t0 \<le> SILENCE_DURATION"
    and "\<not> loud bins1" "t1 - t0 > SILENCE_DURATION"
  shows "\<exists>s1 s2. run (ticks ts) (startListening Granted bins0 t0 s0) = Inr s1 \<and> listening s1 \<and>
           stop_calls s1 = stop_calls (startListening Granted bins0 t0 s0) \<and>
           step (Frame bins1 t1) s1 = Inr s2 \<and> mediaRecorderRef s2 = Some Inactive \<and>
           stop_calls s2 = Suc (stop_calls s1) \<and> frames s2 = [] \<and> animationFrameRef s2 = None"
proof -
  let ?s = "startListening Granted bins0 t0 s0"
  note st = session_start [OF assms(1), of bins0 t0]
  have fl: "isSpeechDetectedRef ?s" "lastSpeechTimeRef ?s = t0" using st(3,4) assms(2) by simp_all
  have "\<forall>(bins, now) \<in> set ts. quiet ?s bins \<and> (isSpeechDetectedRef ?s \<longrightarrow> now - lastSpeechTimeRef ?s \<le> SILENCE_DURATION)"
    using assms(3) st(2) fl by (auto simp: quiet_def loud_def)
  from silent_run [OF st(1) this] obtain s1 where s1: "run (ticks ts) ?s = Inr s1" "listening s1"
    "analyserRef s1 = analyserRef ?s" "isSpeechDetectedRef s1 = isSpeechDetectedRef ?s"
    "lastSpeechTimeRef s1 = lastSpeechTimeRef ?s" "stop_calls s1 = stop_calls ?s" by blast
  have q1: "quiet s1 bins1" using assms(4) s1(3) st(2) by (simp add: quiet_def loud_def)
  have "isSpeechDetectedRef s1" "t1 - lastSpeechTimeRef s1 > SILENCE_DURATION"
    using s1(4,5) fl assms(5) by simp_all
  from expired_tick [OF s1(2) q1 this] obtain s2 where
    "step (Frame bins1 t1) s1 = Inr s2" "mediaRecorderRef s2 = Some Inactive" "frames s2 = []"
    "animationFrameRef s2 = None" "stop_calls s2 = Suc (stop_calls s1)" by blast
  with s1 show ?thesis by auto
qed

lemma avg_replicate: "n > 0 \<Longrightarrow> average (replicate n c) = real (unat c)"
  by (simp add: average_def sum_list_replicate)

lemma bins_full: "getByteFrequencyData \<lparr>fftSize = 256\<rparr> (replicate 128 c) = replicate 128 c"
  by (simp add: getByteFrequencyData_def frequencyBinCount_def)

lemma session0_eq: "session0 = \<lparr>isListening = True, transcript = [], error = None, mediaRecorderRef = Some Recording,
      audioChunksRef = [], audioContextRef = Some Running, analyserRef = Some \<lparr>fftSize = 256\<rparr>, sourceRef = Some Connected,
      animationFrameRef = Some 1, lastSpeechTimeRef = 0, isSpeechDetectedRef = False,
      liveStreams = [1], streamCounter = 1, frames = [1], frameCounter = 1, calls = [Recorder_start, RequestAnimationFrame 1]\<rparr>"
  by (simp add: session0_def startListening_def initial_stt_def cleanupAudio_def stop_if_active_def recorder_active_def
      cancel_frame_ref_def disconnect_source_def disconnect_analyser_def close_context_def Let_def
      checkVolume_def bins_full avg_replicate VAD_THRESHOLD_def requestAnimationFrame_def)

lemma session0_listening: "listening session0" "\<not> isSpeechDetectedRef session0"
  by (simp_all add: session0_eq listening_def)

lemma session0_quiet: "quiet session0 (replicate 128 c) = (unat c \<le> 20)"
proof -
  have "(real (unat c) \<le> 20) = (unat c \<le> 20)"
    using of_nat_le_iff [of "unat c" 20, where ?'a = real] by (simp del: of_nat_unat)
  then show ?thesis
    by (simp add: session0_eq quiet_def bins_full avg_replicate VAD_THRESHOLD_def not_less)
qed

lemma loud_replicate: "loud (replicate 128 c) = (unat c > 20)"
proof -
  have "(real (unat c) > 20) = (unat c > 20)"
    using of_nat_less_iff [of 20 "unat c", where ?'a = real] by (simp del: of_nat_unat)
  then show ?thesis by (simp add: loud_def bins_full avg_replicate VAD_THRESHOLD_def)
qed

lemma initial_tidy: "tidy initial_stt"
  by (simp add: tidy_def initial_stt_def)

text \<open>
  An example for C2: a start in a quiet room and two quiet frames, eight seconds apart.
\<close>

theorem no_auto_stop_without_speech_witness:
  "tidy initial_stt \<and> \<not> loud (replicate 128 5) \<and>
   (\<exists>s' s''. run (ticks [(replicate 128 5, 1016), (replicate 128 20, 9000)]) session0 = Inr s' \<and>
      listening s' \<and> \<not> isSpeechDetectedRef s' \<and> stop_calls s' = stop_calls session0 \<and>
      stopListening s' = Inr s'' \<and> mediaRecorderRef s'' = Some Inactive \<and> frames s'' = [] \<and>
      animationFrameRef s'' = None)"
  using no_auto_stop_without_speech [of initial_stt "replicate 128 5"
      "[(replicate 128 5, 1016), (replicate 128 20, 9000)]" 1000]
  by (simp add: initial_tidy loud_replicate session0_def)

text \<open>
  An example for C3: speech at 2000 ms, quiet frames at 2016 ms and 3500 ms, and the frame
  at 3501 ms stops the session.
\<close>

theorem auto_stop_after_silence_witness:
  "listening session0 \<and> \<not> quiet session0 (replicate 128 90) \<and>
   (\<exists>s1 s2. run (ticks [(replicate 128 90, 2000), (replicate 128 3, 2016), (replicate 128 4, 3500)]) session0 = Inr s1 \<and>
      listening s1 \<and> stop_calls s1 = stop_calls session0 \<and>
      step (Frame (replicate 128 2) 3501) s1 = Inr s2 \<and> mediaRecorderRef s2 = Some Inactive \<and>
      stop_calls s2 = Suc (stop_calls session0) \<and> frames s2 = [] \<and> animationFrameRef s2 = None \<and>
      (\<forall>bins now. step (Frame bins now) s2 = Inr s2))"
  using auto_stop_after_silence [of session0 "replicate 128 90" "[(replicate 128 3, 2016), (replicate 128 4, 3500)]" 2000
      "replicate 128 2" 3501]
  by (simp add: session0_listening session0_quiet SILENCE_DURATION_def)

text \<open>
  Claim C4. Once \<open>isSpeechDetectedRef\<close> is true it stays true through every run of frames of
  the VAD loop, calls of \<open>stopListening\<close> and \<open>cleanupAudio\<close>, deliveries of recorded data and
  \<open>onstop\<close> handlers, and such a run never throws. A new session resets it: after a
  successful \<open>startListening\<close> the flag is whatever the first volume check of the new
  session measured, whatever it was before.
\<close>

theorem speech_flag_monotone:
  "(isSpeechDetectedRef s \<longrightarrow> (\<exists>s'. run es s = Inr s' \<and> isSpeechDetectedRef s')) \<and>
   isSpeechDetectedRef (startListening Granted bins now s)
     = (average (getByteFrequencyData \<lparr>fftSize = 256\<rparr> bins) > VAD_THRESHOLD)"
  using run_flag [of s es] start_resets [of bins now s] by blast

text \<open>An example for C4: a session that heard speech, run to its end, and the next start.\<close>

theorem speech_flag_monotone_witness:
  "isSpeechDetectedRef spoken0 \<and>
   (\<exists>s'. run [Frame (replicate 128 1) 1600, DataAvailable [1, 2], StopListening, OnStop env0 1, ResetTranscript, CleanupAudio] spoken0 = Inr s'
      \<and> isSpeechDetectedRef s') \<and>
   \<not> isSpeechDetectedRef (startListening Granted (replicate 128 1) 7000 spoken0)"
  using speech_flag_monotone [of spoken0 "[Frame (replicate 128 1) 1600, DataAvailable [1, 2], StopListening, OnStop env0 1, ResetTranscript, CleanupAudio]"
      "replicate 128 1" 7000]
  by (simp add: spoken0_def bins_full avg_replicate VAD_THRESHOLD_def)

section \<open>The finished clip and the transcription client\<close>

lemma processAudio_no_key:
  "\<not> env_truthy (env_or (VITE_GROQ_API_KEY env) (VITE_GEMINI_API_KEY env)) \<Longrightarrow>
     processAudio env b s = s\<lparr>error := Some ''Missing API Key''\<rparr>"
  by (simp add: processAudio_def)

lemma apply_response_calls: "apply_response d s = Inr s' \<Longrightarrow> calls s' = calls s"
  by (auto simp: apply_response_def Let_def split: sum.splits option.splits json.splits if_splits)

lemma processAudio_key_calls:
  assumes "env_or (VITE_GROQ_API_KEY env) (VITE_GEMINI_API_KEY env) = Some k" "k \<noteq> []"
  shows "calls (processAudio env b s) = calls s @ [Fetch_post k b]"
proof -
  have t: "env_truthy (env_or (VITE_GROQ_API_KEY env) (VITE_GEMINI_API_KEY env))"
    using assms by (simp add: env_truthy_def)
  show ?thesis
    using assms(1) t
    by (auto simp: processAudio_def Let_def split: stt_fetch.splits sum.splits dest: apply_response_calls)
qed

text \<open>
  Claim C1. When the recorder stops, the clip (the concatenation of the recorded chunks)
  is handed to the transcription client exactly when speech was detected and the clip is
  larger than 1000 bytes. In that case the client posts the clip under the configured key,
  or, when no key is configured, fails fast with \<open>Missing API Key\<close> and posts nothing.
  Otherwise the only call made stops the tracks of the stream the handler captured:
  nothing is posted,
  and the error and the transcript are left as they were.
\<close>

theorem clip_submitted_iff_speech_and_size:
  "(isSpeechDetectedRef s \<and> length (concat (audioChunksRef s)) > 1000 \<longrightarrow>
      (case env_or (VITE_GROQ_API_KEY env) (VITE_GEMINI_API_KEY env) of
         Some (c # cs) \<Rightarrow>
           calls (onstop env captured s) = calls s @ [Track_stop captured, Fetch_post (c # cs) (concat (audioChunksRef s))]
       | _ \<Rightarrow> calls (onstop env captured s) = calls s @ [Track_stop captured] \<and> error (onstop env captured s) = Some ''Missing API Key'')) \<and>
   (\<not> (isSpeechDetectedRef s \<and> length (concat (audioChunksRef s)) > 1000) \<longrightarrow>
      calls (onstop env captured s) = calls s @ [Track_stop captured] \<and> error (onstop env captured s) = error s \<and>
      transcript (onstop env captured s) = transcript s)"
proof (rule conjI; rule impI)
  assume acc: "isSpeechDetectedRef s \<and> length (concat (audioChunksRef s)) > 1000"
  let ?s1 = "s\<lparr>liveStreams := removeAll captured (liveStreams s),
                 calls := calls s @ [Track_stop captured], isListening := False\<rparr>"
  have o: "onstop env captured s = processAudio env (concat (audioChunksRef s)) ?s1"
    using acc by (simp add: onstop_def Let_def)
  show "case env_or (VITE_GROQ_API_KEY env) (VITE_GEMINI_API_KEY env) of
         Some (c # cs) \<Rightarrow>
           calls (onstop env captured s) = calls s @ [Track_stop captured, Fetch_post (c # cs) (concat (audioChunksRef s))]
       | _ \<Rightarrow> calls (onstop env captured s) = calls s @ [Track_stop captured] \<and> error (onstop env captured s) = Some ''Missing API Key''"
  proof (cases "env_or (VITE_GROQ_API_KEY env) (VITE_GEMINI_API_KEY env)")
    case None
    then show ?thesis using o processAudio_no_key [of env] by (simp add: env_truthy_def)
  next
    case (Some k)
    show ?thesis
    proof (cases k)
      case Nil
      with Some show ?thesis using o processAudio_no_key [of env] by (simp add: env_truthy_def)
    next
      case (Cons c cs)
      with Some show ?thesis using o processAudio_key_calls [of env k] by simp
    qed
  qed
next
  assume "\<not> (isSpeechDetectedRef s \<and> length (concat (audioChunksRef s)) > 1000)"
  then show "calls (onstop env captured s) = calls s @ [Track_stop captured] \<and> error (onstop env captured s) = error s \<and>
      transcript (onstop env captured s) = transcript s"
    by (auto simp: onstop_def Let_def)
qed

lemma env0_key: "env_or (VITE_GROQ_API_KEY env0) (VITE_GEMINI_API_KEY env0) = Some ''gsk_k''"
  by (simp add: env0_def env_or_def env_truthy_def)

text \<open>
  An example for C1: the clip of 5000 bytes recorded with speech is posted, the clip of 500
  bytes recorded without is dropped.
\<close>

theorem clip_submitted_witness:
  "calls (onstop env0 1 spoken0) = calls spoken0 @ [Track_stop 1, Fetch_post ''gsk_k'' (replicate 3000 7 @ replicate 2000 9)] \<and>
   calls (onstop env0 1 silent0) = calls silent0 @ [Track_stop 1] \<and> error (onstop env0 1 silent0) = None \<and>
   transcript (onstop env0 1 silent0) = []"
  using clip_submitted_iff_speech_and_size [of spoken0 env0 1]
    clip_submitted_iff_speech_and_size [of silent0 env0 1]
  by (simp add: env0_key) (simp add: spoken0_def silent0_def session0_eq)

text \<open>
  Claim C5. Let a key be configured, and let the upload be answered with a success status
  and a JSON body whose \<open>text\<close> field is the string \<open>t\<close>. Then the transcript after
  \<open>processAudio\<close> is \<open>t\<close> with the white space trimmed from both ends, unless that is empty,
  in which case the transcript is left as it was; in both cases no error is set.
\<close>

theorem transcript_is_trimmed_text:
  assumes "env_truthy (env_or (VITE_GROQ_API_KEY env) (VITE_GEMINI_API_KEY env))"
    and "upload env = Fetch_response st (Inr data)" "response_ok st"
    and "prop_of data text_key = Inr (Some (JStr t))"
  shows "transcript (processAudio env b s) = (if trim t = [] then transcript s else trim t) \<and>
         error (processAudio env b s) = error s"
proof (cases "t = []")
  case True
  then have "trim t = []" by (simp add: trim_def)
  with True assms show ?thesis
    by (simp add: processAudio_def Let_def apply_response_def truthy_opt_def)
next
  case False
  with assms show ?thesis
    by (simp add: processAudio_def Let_def apply_response_def truthy_opt_def)
qed

lemma trim_example:
  "trim ([0x20] @ ascii ''P'' @ [0xEB] @ ascii ''rsh'' @ [0xEB] @ ascii ''ndetje'' @ [0x20])
     = ascii ''P'' @ [0xEB] @ ascii ''rsh'' @ [0xEB] @ ascii ''ndetje''"
  by (simp add: trim_def ascii_def is_js_space_def)

text \<open>
  An example for C5: the response text with a space on each side gives the word without
  them, and a response text of two spaces gives no transcript.
\<close>

theorem transcript_is_trimmed_text_witness:
  "transcript (processAudio env0 (replicate 5000 7) session0)
     = ascii ''P'' @ [0xEB] @ ascii ''rsh'' @ [0xEB] @ ascii ''ndetje'' \<and>
   error (processAudio env0 (replicate 5000 7) session0) = None \<and>
   transcript (processAudio (env0\<lparr>upload := Fetch_response 200 (Inr (JObj [(text_key, JStr (ascii ''  ''))]))\<rparr>) [] session0) = []"
  using transcript_is_trimmed_text [of env0 200 _ "[0x20] @ ascii ''P'' @ [0xEB] @ ascii ''rsh'' @ [0xEB] @ ascii ''ndetje'' @ [0x20]" "replicate 5000 7" session0]
    transcript_is_trimmed_text [of "env0\<lparr>upload := Fetch_response 200 (Inr (JObj [(text_key, JStr (ascii ''  ''))]))\<rparr>"
       200 _ "ascii ''  ''" "[]" session0]
  by (simp add: env0_key env_truthy_def response_ok_def) (simp add: env0_def trim_example session0_eq trim_def ascii_def is_js_space_def)

section \<open>The conversation history\<close>

lemma env429_key: "env_truthy (API_KEY env429)" "env_truthy (API_KEY env429_unread)"
  by (simp_all add: env429_def env429_unread_def API_KEY_def env_or_def env_truthy_def)

text \<open>
  Claim C6 says that after a reply call answered with status 429 the history is what it
  was before the call. On the first call of a conversation it is not: the history was empty
  before the call and holds the system prompt after it.
\<close>

theorem rate_limit_history_counterexample:
  "reply env429 = Chat_response 429 (Inr (ascii ''slow down'')) (Inl SyntaxError) \<and>
   conversationHistory chat0 = [] \<and>
   conversationHistory (snd (sendMessageToGemini env429 (ascii ''hi'') chat0))
     = [\<lparr>role = System, content = JStr SYSTEM_PROMPT\<rparr>]"
  by (simp add: sendMessageToGemini_def env429_key Let_def)
     (simp add: env429_def send_try_def response_ok_def chat0_def init_history_def pop_def)

text \<open>
  When the body of the 429 response cannot be read, the error thrown is the one the read
  failed with: \<open>response.text()\<close> is awaited before the status is looked at.
\<close>

lemma rate_limit_body_unreadable:
  "sendMessageToGemini env429_unread (ascii ''hi'') chat0
     = (Inl TypeError,
        \<lparr>conversationHistory = [system_turn], requests = [[system_turn, user_turn (ascii ''hi'')]]\<rparr>)"
  by (simp add: sendMessageToGemini_def env429_key Let_def)
     (simp add: env429_def env429_unread_def send_try_def response_ok_def chat0_def init_history_def
        pop_def system_turn_def user_turn_def)

text \<open>
  Claim C6, amended. Let a key be configured and let \<open>sendMessageToGemini\<close> receive a
  response with status 429, body included. Then the call throws \<open>GeminiApiError\<close> with
  status code 429 and the retryable flag set; the user message it pushed is removed, so
  that the history is the history before the call, after the system prompt was put in
  front of an empty one; and exactly one request was posted: the call does not retry.
\<close>

theorem rate_limit_error_and_retraction:
  assumes "env_truthy (API_KEY env)" "reply env = Chat_response 429 (Inr body) js"
  shows "sendMessageToGemini env userMessage c =
           (Inl (GeminiApiError ''Groq Rate Limit - Too fast'' (Some 429) True),
            \<lparr>conversationHistory =
                (if conversationHistory c = []
                 then [\<lparr>role = System, content = JStr SYSTEM_PROMPT\<rparr>]
                 else conversationHistory c),
             requests = requests c @
                [(if conversationHistory c = []
                  then [\<lparr>role = System, content = JStr SYSTEM_PROMPT\<rparr>]
                  else conversationHistory c) @ [\<lparr>role = User, content = JStr userMessage\<rparr>]]\<rparr>)"
  using assms
  by (simp add: sendMessageToGemini_def Let_def send_try_def response_ok_def init_history_def pop_def)

text \<open>An example for C6: the first call of a conversation, and a call after one exchange.\<close>

theorem rate_limit_error_and_retraction_witness:
  "sendMessageToGemini env429 (ascii ''hi'') chat0 =
     (Inl (GeminiApiError ''Groq Rate Limit - Too fast'' (Some 429) True),
      \<lparr>conversationHistory = [system_turn], requests = [[system_turn, user_turn (ascii ''hi'')]]\<rparr>) \<and>
   sendMessageToGemini env429 (ascii ''hi'')
       \<lparr>conversationHistory = [system_turn, user_turn (ascii ''a''), assistant_turn (ascii ''b'')], requests = []\<rparr> =
     (Inl (GeminiApiError ''Groq Rate Limit - Too fast'' (Some 429) True),
      \<lparr>conversationHistory = [system_turn, user_turn (ascii ''a''), assistant_turn (ascii ''b'')],
       requests = [[system_turn, user_turn (ascii ''a''), assistant_turn (ascii ''b''), user_turn (ascii ''hi'')]]\<rparr>)"
  using rate_limit_error_and_retraction [of env429 "ascii ''slow down''" "Inl SyntaxError" "ascii ''hi''" chat0]
    rate_limit_error_and_retraction [of env429 "ascii ''slow down''" "Inl SyntaxError" "ascii ''hi''"
      "\<lparr>conversationHistory = [system_turn, user_turn (ascii ''a''), assistant_turn (ascii ''b'')], requests = []\<rparr>"]
  by (simp add: env429_key) (simp add: env429_def chat0_def system_turn_def user_turn_def)

lemma trim_history_length: "length (trim_history h) \<le> 7"
  by (auto simp: trim_history_def split: list.splits)

lemma trim_history_shape:
  "length h > 7 \<Longrightarrow> trim_history h = hd h # drop (length h - 6) h"
  by (auto simp: trim_history_def split: list.splits)

lemma trim_history_keeps_first: "h \<noteq> [] \<Longrightarrow> hd (trim_history h) = hd h"
  by (auto simp: trim_history_def split: list.splits)

lemma send_try_success:
  assumes "send_try f h = (Inr r, h')"
  shows "h' = trim_history (h @ [\<lparr>role = Assistant, content = r\<rparr>])"
  using assms
  by (auto simp: send_try_def split: chat_fetch.splits sum.splits if_splits)

text \<open>
  After a successful \<open>sendMessageToGemini\<close> the history has at most seven entries: it is
  the trimmed history, and its first entry is the first entry of the history the request
  was made from (the system prompt).
\<close>

lemma send_success_bounded:
  assumes "sendMessageToGemini env m c = (Inr r, c')"
  shows "length (conversationHistory c') \<le> 7 \<and>
         conversationHistory c' =
           trim_history (init_history (conversationHistory c) @ [\<lparr>role = User, content = JStr m\<rparr>, \<lparr>role = Assistant, content = r\<rparr>]) \<and>
         hd (conversationHistory c') = hd (init_history (conversationHistory c))"
proof -
  let ?h2 = "init_history (conversationHistory c) @ [\<lparr>role = User, content = JStr m\<rparr>]"
  from assms obtain h3 where h3: "send_try (reply env) ?h2 = (Inr r, h3)" "conversationHistory c' = h3"
    by (auto simp: sendMessageToGemini_def Let_def split: if_splits prod.splits sum.splits)
  from send_try_success [OF h3(1)] have e: "h3 = trim_history (?h2 @ [\<lparr>role = Assistant, content = r\<rparr>])" .
  have ne: "init_history (conversationHistory c) \<noteq> []" by (simp add: init_history_def)
  then have "hd (trim_history (?h2 @ [\<lparr>role = Assistant, content = r\<rparr>])) = hd (init_history (conversationHistory c))"
    by (subst trim_history_keeps_first) simp_all
  with e h3(2) show ?thesis by (simp add: trim_history_length)
qed

lemma env_stream_key: "env_truthy (API_KEY env_stream)"
  by (simp add: env_stream_def API_KEY_def env_or_def env_truthy_def)

section \<open>The streaming decoder\<close>

lemma process_line_content:
  "process_line pf line d =
     (case spec_line_content pf line of
        None \<Rightarrow> d
      | Some (v, str) \<Rightarrow> (fst d @ str, snd d @ [v]))"
  by (simp add: process_line_def spec_line_content_def line_try_def split: option.splits sum.splits)

lemma process_lines_content:
  "process_lines pf ls d =
     (fst d @ concat (map snd (List.map_filter (spec_line_content pf) ls)),
      snd d @ map fst (List.map_filter (spec_line_content pf) ls))"
proof (induction ls arbitrary: d)
  case Nil
  then show ?case by (simp add: List.map_filter_simps)
next
  case (Cons l ls)
  show ?case
    by (cases "spec_line_content pf l")
       (auto simp: Cons.IH process_line_content List.map_filter_simps)
qed

lemma map_filter_append: "List.map_filter f (xs @ ys) = List.map_filter f xs @ List.map_filter f ys"
  by (simp add: List.map_filter_def)

lemma read_loop_content:
  "read_loop pf cs d =
     (fst d @ concat (map snd (List.map_filter (spec_line_content pf) (concat (map split_lines cs)))),
      snd d @ map fst (List.map_filter (spec_line_content pf) (concat (map split_lines cs))))"
proof (induction cs arbitrary: d)
  case Nil
  then show ?case by (simp add: List.map_filter_simps)
next
  case (Cons c cs)
  show ?case by (simp add: Cons.IH process_lines_content map_filter_append)
qed

lemma split_lines_not_Nil: "split_lines xs \<noteq> []"
  by (cases xs) (auto split: list.splits)

lemma split_lines_at_feed: "split_lines (xs @ 0xA # r) = split_lines xs @ split_lines r"
proof (induction xs)
  case Nil
  then show ?case by simp
next
  case (Cons c xs)
  obtain l ls where l: "split_lines xs = l # ls"
    using split_lines_not_Nil [of xs] by (cases "split_lines xs") auto
  with Cons show ?case by simp
qed

lemma split_lines_feed_last: "split_lines (xs @ [0xA]) = split_lines xs @ [[]]"
  using split_lines_at_feed [of xs "[]"] by simp

lemma chunk_then_rest:
  assumes "f [] = None" "c = [] \<or> last c = 0xA"
  shows "List.map_filter f (split_lines c) @ List.map_filter f (split_lines r)
           = List.map_filter f (split_lines (c @ r))"
proof (cases "c = []")
  case True
  then show ?thesis using assms(1) by (simp add: List.map_filter_simps)
next
  case False
  with assms(2) obtain xs where c: "c = xs @ [0xA]"
    by (metis append_butlast_last_id)
  have "split_lines (c @ r) = split_lines xs @ split_lines r"
    using split_lines_at_feed [of xs r] c by simp
  then show ?thesis
    using assms(1) c by (simp add: split_lines_feed_last map_filter_append List.map_filter_simps)
qed

lemma unsplit_lines:
  assumes "f [] = None" "unsplit cs"
  shows "List.map_filter f (concat (map split_lines cs)) = List.map_filter f (split_lines (concat cs))"
  using assms(2)
proof (induction cs rule: unsplit.induct)
  case 1
  then show ?case using assms(1) by (simp add: List.map_filter_simps)
next
  case (2 c)
  then show ?case by simp
next
  case (3 c c' cs)
  then have "List.map_filter f (concat (map split_lines (c' # cs)))
               = List.map_filter f (split_lines (concat (c' # cs)))"
    by simp
  moreover have "c = [] \<or> last c = 0xA" using "3.prems" by simp
  ultimately show ?case
    using chunk_then_rest [of f c "concat (c' # cs)"] assms(1)
    by (simp add: map_filter_append)
qed

lemma done_line_content: "spec_line_content pf done_line = None"
  by (simp add: spec_line_content_def)

lemma line_content_empty: "spec_line_content pf [] = None"
  by (simp add: spec_line_content_def startsWith_def data_prefix_def ascii_def)

text \<open>
  Claim C8, amended. Let a key be configured and let the stream be answered with a success
  status and a body whose reader delivers its chunks and then reports the end, no line
  being split between two chunks. Then the call throws nothing; the values it yields are,
  in order, the contributions \<open>spec_line_content\<close> of the received lines, the lines of the
  whole body; the assistant message pushed at the end is the concatenation of their string
  forms. So each data line is parsed and its content, when present and convertible to a
  string, appended and yielded; a line on which the parse or the conversion throws
  contributes nothing and the lines after it are still decoded; the sentinel line
  contributes nothing under every parser, because it is never parsed; and the stream ends
  when the reader reports the end, not at the sentinel.
\<close>

theorem stream_decoding:
  assumes "env_truthy (API_KEY env)" "stream env = Stream_response st (Some rd)" "response_ok st"
    and "read_error rd = None" "unsplit (chunks rd)"
  shows "spec_line_content pf done_line = None \<and>
         (\<exists>c'. streamMessageToGemini pf env userMessage c
              = ((None, map fst (List.map_filter (spec_line_content pf) (split_lines (concat (chunks rd))))), c') \<and>
            last (conversationHistory c') =
              \<lparr>role = Assistant,
               content = JStr (concat (map snd
                  (List.map_filter (spec_line_content pf) (split_lines (concat (chunks rd))))))\<rparr>)"
proof -
  have "List.map_filter (spec_line_content pf) (concat (map split_lines (chunks rd)))
          = List.map_filter (spec_line_content pf) (split_lines (concat (chunks rd)))"
    using unsplit_lines [of "spec_line_content pf" "chunks rd"] line_content_empty [of pf] assms(5)
    by simp
  with assms(1-4) show ?thesis
    by (simp add: done_line_content streamMessageToGemini_def stream_try_def Let_def read_loop_content)
qed

lemma split_lines_no_newline: "0xA \<notin> set l \<Longrightarrow> split_lines l = [l]"
  by (induction l) auto

lemma example_lines_no_newline:
  "0xA \<notin> set hi_line" "0xA \<notin> set empty_line" "0xA \<notin> set done_line" "0xA \<notin> set bad_line"
  "0xA \<notin> set method_line"
  by (simp_all add: hi_line_def empty_line_def bad_line_def method_line_def done_line_def data_prefix_def
      hi_json_def empty_json_def bad_json_def method_json_def ascii_def)

lemma example_lines:
  "drop 6 hi_line = hi_json" "startsWith hi_line data_prefix" "hi_line \<noteq> done_line"
  "drop 6 empty_line = empty_json" "startsWith empty_line data_prefix" "empty_line \<noteq> done_line"
  "drop 6 bad_line = bad_json" "startsWith bad_line data_prefix" "bad_line \<noteq> done_line"
  "drop 6 method_line = method_json" "startsWith method_line data_prefix" "method_line \<noteq> done_line"
  by (simp_all add: hi_line_def empty_line_def bad_line_def method_line_def data_prefix_def ascii_def
      startsWith_def hi_json_def empty_json_def bad_json_def method_json_def done_line_def)

lemma example_json_distinct:
  "empty_json \<noteq> hi_json" "method_json \<noteq> hi_json" "method_json \<noteq> empty_json"
  "bad_json \<noteq> hi_json" "bad_json \<noteq> empty_json" "bad_json \<noteq> method_json" "bad_json \<noteq> ascii ''null''"
  by (simp_all add: hi_json_def empty_json_def method_json_def bad_json_def ascii_def)

lemma pf0_parse:
  "JSON_parse pf0 hi_json =
     Some (JObj [(choices_key, JArr [JObj [(delta_key, JObj [(content_key, JStr (ascii ''hi''))])]])])"
  "JSON_parse pf0 empty_json =
     Some (JObj [(choices_key, JArr [JObj [(delta_key,
              JObj [(ascii ''role'', JStr (ascii ''assistant'')), (content_key, JStr [])])]])])"
  "JSON_parse pf0 method_json =
     Some (JObj [(choices_key, JArr [JObj [(delta_key,
              JObj [(content_key, JObj [(ascii ''toString'', JNum (Finite 1))])])]])])"
  "JSON_parse pf0 bad_json = None"
  by (simp_all add: pf0_def example_json_distinct)

lemma delta_content_examples:
  "delta_content (JObj [(choices_key, JArr [JObj [(delta_key, JObj [(content_key, v)])]])]) = Inr (Some v)"
  "delta_content (JObj [(choices_key, JArr [JObj [(delta_key,
              JObj [(ascii ''role'', JStr r), (content_key, v)])]])]) = Inr (Some v)"
  by (simp_all add: delta_content_def index0_def opt_prop_def)
     (simp add: content_key_def ascii_def)

lemma line_content_hi: "spec_line_content pf0 hi_line = Some (JStr (ascii ''hi''), ascii ''hi'')"
  by (simp add: spec_line_content_def example_lines pf0_parse delta_content_examples) (simp add: ascii_def)

lemma line_content_empty_delta: "spec_line_content pf0 empty_line = None"
  by (simp add: spec_line_content_def example_lines pf0_parse delta_content_examples)

lemma line_content_bad: "spec_line_content pf0 bad_line = None"
  by (simp add: spec_line_content_def example_lines pf0_parse)

lemma line_content_method: "spec_line_content pf0 method_line = None"
  by (simp add: spec_line_content_def example_lines pf0_parse delta_content_examples)

lemma env_after_done_key: "env_truthy (API_KEY env_after_done)" "env_truthy (API_KEY env_method)"
  by (simp_all add: env_after_done_def env_method_def env_stream_def API_KEY_def env_or_def env_truthy_def)

lemma stream_yields:
  assumes "env_truthy (API_KEY env)" "stream env = Stream_response 200 (Some \<lparr>chunks = cs, read_error = None\<rparr>)"
  shows "fst (streamMessageToGemini pf env m c)
           = (None, map fst (List.map_filter (spec_line_content pf) (concat (map split_lines cs))))"
  using assms
  by (simp add: streamMessageToGemini_def stream_try_def response_ok_def Let_def read_loop_content)

text \<open>
  Claim C8 says that the line \<open>data: [DONE]\<close> marks the end of the stream, and that content
  that is present is appended and yielded. The decoder skips the sentinel and goes on: a
  data line that follows it is parsed and its content yielded. And content that is present
  but has no string form (an object with an own property \<open>toString\<close>) makes the \<open>+=\<close> throw
  inside the \<open>try\<close>: the line is skipped, nothing is appended and nothing yielded.
\<close>

theorem sentinel_counterexample:
  "stream env_after_done
     = Stream_response 200 (Some \<lparr>chunks = [done_line @ [0xA] @ hi_line @ [0xA]], read_error = None\<rparr>) \<and>
   fst (streamMessageToGemini pf0 env_after_done (ascii ''q'') chat0) = (None, [JStr (ascii ''hi'')]) \<and>
   stream env_method
     = Stream_response 200 (Some \<lparr>chunks = [method_line @ [0xA]], read_error = None\<rparr>) \<and>
   JSON_parse pf0 (drop 6 method_line) =
     Some (JObj [(choices_key, JArr [JObj [(delta_key,
              JObj [(content_key, JObj [(ascii ''toString'', JNum (Finite 1))])])]])]) \<and>
   fst (streamMessageToGemini pf0 env_method (ascii ''q'') chat0) = (None, [])"
proof -
  have s: "stream env_after_done = Stream_response 200 (Some \<lparr>chunks =
        [done_line @ [0xA] @ hi_line @ [0xA]], read_error = None\<rparr>)"
    by (simp add: env_after_done_def)
  have m: "stream env_method = Stream_response 200 (Some \<lparr>chunks =
        [method_line @ [0xA]], read_error = None\<rparr>)"
    by (simp add: env_method_def)
  have "fst (streamMessageToGemini pf0 env_after_done (ascii ''q'') chat0) = (None, [JStr (ascii ''hi'')])"
    using stream_yields [OF env_after_done_key(1) s, of pf0 "ascii ''q''" chat0]
    by (simp add: split_lines_at_feed split_lines_no_newline example_lines_no_newline
        List.map_filter_simps done_line_content line_content_hi line_content_empty)
  moreover have "fst (streamMessageToGemini pf0 env_method (ascii ''q'') chat0) = (None, [])"
    using stream_yields [OF env_after_done_key(2) m, of pf0 "ascii ''q''" chat0]
    by (simp add: split_lines_at_feed split_lines_no_newline example_lines_no_newline
        List.map_filter_simps line_content_method line_content_empty)
  ultimately show ?thesis using s m by (simp add: example_lines pf0_parse)
qed

text \<open>
  Content that is present but empty, as in the first delta of a reply, is not yielded:
  \<open>if (content)\<close> rejects the empty string.
\<close>

lemma empty_delta_not_yielded: "process_line pf0 empty_line d = d"
  by (simp add: process_line_content line_content_empty_delta)

lemma env_stream_unsplit:
  "unsplit [bad_line @ [0xA] @ hi_line @ [0xA, 0xA], done_line @ [0xA, 0xA]]"
  by simp

text \<open>
  An example for C8: a data line cut short, which does not parse; a content line; and the
  sentinel, in two chunks that end at line feeds. The cut line is skipped and the content
  line after it is yielded.
\<close>

theorem stream_decoding_witness:
  "unsplit [bad_line @ [0xA] @ hi_line @ [0xA, 0xA], done_line @ [0xA, 0xA]] \<and>
   spec_line_content pf0 done_line = None \<and>
   (\<exists>c'. streamMessageToGemini pf0 env_stream (ascii ''q'') chat0 = ((None, [JStr (ascii ''hi'')]), c') \<and>
      last (conversationHistory c') = assistant_turn (ascii ''hi''))"
  using stream_decoding [of env_stream 200 _ pf0 "ascii ''q''" chat0]
  by (simp add: env_stream_key response_ok_def)
     (simp add: env_stream_def split_lines_at_feed split_lines_no_newline example_lines_no_newline
        List.map_filter_simps done_line_content
        line_content_hi line_content_bad line_content_empty assistant_turn_def)

lemma cut_line_content:
  "split_lines (take 20 hi_line) = [take 20 hi_line]"
  "split_lines (drop 20 hi_line @ [0xA]) = [drop 20 hi_line, []]"
  "spec_line_content pf0 (take 20 hi_line) = None"
  "spec_line_content pf0 (drop 20 hi_line) = None"
proof -
  have n: "0xA \<notin> set (take 20 hi_line)" "0xA \<notin> set (drop 20 hi_line)"
    using example_lines_no_newline(1) by (auto dest: in_set_takeD in_set_dropD)
  show "split_lines (take 20 hi_line) = [take 20 hi_line]"
    using n(1) by (rule split_lines_no_newline)
  show "split_lines (drop 20 hi_line @ [0xA]) = [drop 20 hi_line, []]"
    using n(2) by (simp add: split_lines_feed_last split_lines_no_newline)
  have "JSON_parse pf0 (drop 6 (take 20 hi_line)) = None"
    by (simp add: pf0_def hi_line_def data_prefix_def hi_json_def empty_json_def method_json_def ascii_def)
  then show "spec_line_content pf0 (take 20 hi_line) = None"
    by (simp add: spec_line_content_def)
  have "\<not> startsWith (drop 20 hi_line) data_prefix"
    by (simp add: startsWith_def hi_line_def data_prefix_def hi_json_def ascii_def)
  then show "spec_line_content pf0 (drop 20 hi_line) = None"
    by (simp add: spec_line_content_def)
qed

text \<open>
  The lines are taken chunk by chunk: a data line that the transport splits between two
  chunks is decoded as two lines, neither of which parses, and its content is lost. The
  statement above leaves that case out.
\<close>

lemma split_chunk_loses_line:
  "concat [take 20 hi_line, drop 20 hi_line @ [0xA]] = hi_line @ [0xA] \<and>
   fst (streamMessageToGemini pf0 env_cut (ascii ''q'') chat0) = (None, [])"
proof -
  have k: "env_truthy (API_KEY env_cut)"
    by (simp add: env_cut_def env_stream_def API_KEY_def env_or_def env_truthy_def)
  have s: "stream env_cut = Stream_response 200
     (Some \<lparr>chunks = [take 20 hi_line, drop 20 hi_line @ [0xA]], read_error = None\<rparr>)"
    by (simp add: env_cut_def)
  show ?thesis
    using stream_yields [OF k s, of pf0 "ascii ''q''" chat0]
    by (simp add: cut_line_content List.map_filter_simps line_content_empty)
qed

text \<open>
  A streamed exchange that completes adds two entries to the history, whatever its length.
\<close>

lemma stream_success_grows:
  assumes "env_truthy (API_KEY env)" "stream env = Stream_response st (Some rd)" "response_ok st"
    and "read_error rd = None"
  shows "getConversationLength (snd (streamMessageToGemini pf env m c))
           = length (init_history (conversationHistory c)) + 2"
  using assms
  by (simp add: streamMessageToGemini_def stream_try_def Let_def getConversationLength_def)

text \<open>
  Claim C7 says that after every successful reply call the history is trimmed to the system
  prompt and the last six entries, so that it never has more than seven. That holds for
  \<open>sendMessageToGemini\<close> (\<open>send_success_bounded\<close> above). \<open>streamMessageToGemini\<close> has no
  such step: a streamed exchange that completes, without an error, on a history of seven
  entries leaves nine.
\<close>

theorem streamed_history_exceeds_seven:
  "getConversationLength full7 = 7 \<and>
   fst (fst (streamMessageToGemini pf0 env_stream (ascii ''q4'') full7)) = None \<and>
   getConversationLength (snd (streamMessageToGemini pf0 env_stream (ascii ''q4'') full7)) = 9"
  by (simp add: streamMessageToGemini_def env_stream_key Let_def getConversationLength_def)
     (simp add: env_stream_def stream_try_def response_ok_def full7_def init_history_def Let_def)

section \<open>The sensor service\<close>

lemma default_now: "(DEFAULT_SENSOR_DATA l)\<lparr>lastUpdated := now\<rparr> = offline now"
  by (simp add: DEFAULT_SENSOR_DATA_def offline_def)

lemma sensor_try_failures:
  "sensor_try (Sensor_rejected e) now = Inl e"
  "\<not> response_ok st \<Longrightarrow> sensor_try (Sensor_response st js) now = Inl (Error (''Sensor API error: '' @ decimal st))"
  "response_ok st \<Longrightarrow> sensor_try (Sensor_response st (Inl e)) now = Inl e"
  "response_ok st \<Longrightarrow> sensor_try (Sensor_response st (Inr JNull)) now = Inl TypeError"
  by (simp_all add: sensor_try_def)

lemma sensor_try_parsed:
  assumes "response_ok st" "data \<noteq> JNull"
  shows "sensor_try (Sensor_response st (Inr data)) now =
     Inr \<lparr>temperature = number_or_null (field data ''temperature''),
          humidity = number_or_null (field data ''humidity''),
          tempAlert = Boolean (field data ''temp_alert''),
          light = number_or_null (field data ''light''),
          lightIsDark = Boolean (field data ''light_is_dark''),
          motion = Boolean (field data ''motion''),
          lastMotion = number_or_null (field data ''last_motion''),
          isConnected = True,
          lastUpdated = now\<rparr>"
  using assms by (cases data) (simp_all add: sensor_try_def field_def)

lemma fetchSensorData_resolves: "\<exists>d. fetchSensorData env = Inr d"
  by (simp add: fetchSensorData_def split: sum.splits)

text \<open>
  Claim C10, amended. \<open>fetchSensorData\<close> always resolves with a value and never rejects.
  In simulation mode the value is the simulated record. Otherwise, when the device address
  is not configured, the request is rejected (a network failure, or the abort of the
  timer), the status is not a success, the body is not JSON or is \<open>null\<close>, the value is the
  default record: every numeric field \<open>null\<close>, every boolean field \<open>false\<close>,
  \<open>isConnected = false\<close>, and \<open>lastUpdated\<close> the current time. On a success response each
  numeric field is the response field when that is a number and \<open>null\<close> otherwise, and each
  boolean field is the truthiness of the response field.
\<close>

theorem fetchSensorData_total:
  "(\<exists>d. fetchSensorData env = Inr d) \<and>
   (isSimulationMode (VITE_SIMULATION_MODE env) \<longrightarrow>
      fetchSensorData env = Inr (generateSimulatedSensorData (arith env) (random env) (clock env))) \<and>
   (\<not> isSimulationMode (VITE_SIMULATION_MODE env) \<and>
    (\<not> env_truthy (PI_IP env) \<or> (\<exists>e. device env = Sensor_rejected e) \<or>
     (\<exists>st js. device env = Sensor_response st js \<and>
        (\<not> response_ok st \<or> (\<exists>e. js = Inl e) \<or> js = Inr JNull))) \<longrightarrow>
      fetchSensorData env =
        Inr \<lparr>temperature = None, humidity = None, tempAlert = False, light = None,
             lightIsDark = False, motion = False, lastMotion = None, isConnected = False,
             lastUpdated = clock env\<rparr>) \<and>
   (\<forall>st data. \<not> isSimulationMode (VITE_SIMULATION_MODE env) \<and> env_truthy (PI_IP env) \<and>
      device env = Sensor_response st (Inr data) \<and> response_ok st \<and> data \<noteq> JNull \<longrightarrow>
      fetchSensorData env =
        Inr \<lparr>temperature = (case field data ''temperature'' of Some (JNum n) \<Rightarrow> Some n | _ \<Rightarrow> None),
             humidity = (case field data ''humidity'' of Some (JNum n) \<Rightarrow> Some n | _ \<Rightarrow> None),
             tempAlert = truthy_opt (field data ''temp_alert''),
             light = (case field data ''light'' of Some (JNum n) \<Rightarrow> Some n | _ \<Rightarrow> None),
             lightIsDark = truthy_opt (field data ''light_is_dark''),
             motion = truthy_opt (field data ''motion''),
             lastMotion = (case field data ''last_motion'' of Some (JNum n) \<Rightarrow> Some n | _ \<Rightarrow> None),
             isConnected = True,
             lastUpdated = clock env\<rparr>)"
proof (intro conjI allI impI)
  show "\<exists>d. fetchSensorData env = Inr d" by (rule fetchSensorData_resolves)
next
  assume "isSimulationMode (VITE_SIMULATION_MODE env)"
  then show "fetchSensorData env = Inr (generateSimulatedSensorData (arith env) (random env) (clock env))"
    by (simp add: fetchSensorData_def)
next
  assume a: "\<not> isSimulationMode (VITE_SIMULATION_MODE env) \<and>
    (\<not> env_truthy (PI_IP env) \<or> (\<exists>e. device env = Sensor_rejected e) \<or>
     (\<exists>st js. device env = Sensor_response st js \<and>
        (\<not> response_ok st \<or> (\<exists>e. js = Inl e) \<or> js = Inr JNull)))"
  have "fetchSensorData env = Inr (offline (clock env))"
  proof (cases "env_truthy (PI_IP env)")
    case False
    with a show ?thesis by (simp add: fetchSensorData_def default_now)
  next
    case True
    with a have "\<exists>e. sensor_try (device env) (clock env) = Inl e"
      by (cases "device env") (auto simp: sensor_try_def)
    with a True show ?thesis by (auto simp: fetchSensorData_def default_now)
  qed
  then show "fetchSensorData env =
        Inr \<lparr>temperature = None, humidity = None, tempAlert = False, light = None,
             lightIsDark = False, motion = False, lastMotion = None, isConnected = False,
             lastUpdated = clock env\<rparr>"
    by (simp add: offline_def)
next
  fix st data
  assume a: "\<not> isSimulationMode (VITE_SIMULATION_MODE env) \<and> env_truthy (PI_IP env) \<and>
      device env = Sensor_response st (Inr data) \<and> response_ok st \<and> data \<noteq> JNull"
  then have "sensor_try (device env) (clock env) =
     Inr \<lparr>temperature = number_or_null (field data ''temperature''),
          humidity = number_or_null (field data ''humidity''),
          tempAlert = Boolean (field data ''temp_alert''),
          light = number_or_null (field data ''light''),
          lightIsDark = Boolean (field data ''light_is_dark''),
          motion = Boolean (field data ''motion''),
          lastMotion = number_or_null (field data ''last_motion''),
          isConnected = True,
          lastUpdated = clock env\<rparr>"
    using sensor_try_parsed [of st data "clock env"] by simp
  with a show "fetchSensorData env =
        Inr \<lparr>temperature = (case field data ''temperature'' of Some (JNum n) \<Rightarrow> Some n | _ \<Rightarrow> None),
             humidity = (case field data ''humidity'' of Some (JNum n) \<Rightarrow> Some n | _ \<Rightarrow> None),
             tempAlert = truthy_opt (field data ''temp_alert''),
             light = (case field data ''light'' of Some (JNum n) \<Rightarrow> Some n | _ \<Rightarrow> None),
             lightIsDark = truthy_opt (field data ''light_is_dark''),
             motion = truthy_opt (field data ''motion''),
             lastMotion = (case field data ''last_motion'' of Some (JNum n) \<Rightarrow> Some n | _ \<Rightarrow> None),
             isConnected = True,
             lastUpdated = clock env\<rparr>"
    by (simp add: fetchSensorData_def number_or_null_def Boolean_def)
qed

lemma sensor_env0_read:
  "\<not> isSimulationMode (VITE_SIMULATION_MODE sensor_env0)" "env_truthy (PI_IP sensor_env0)"
  by (simp_all add: sensor_env0_def isSimulationMode_def PI_IP_def env_or_def env_truthy_def)

lemma sensor_env0_result:
  "fetchSensorData sensor_env0 =
     Inr \<lparr>temperature = None, humidity = None, tempAlert = True, light = Some (Finite 64),
          lightIsDark = False, motion = True, lastMotion = None, isConnected = True,
          lastUpdated = 5000\<rparr>"
  by (simp add: fetchSensorData_def sensor_env0_read)
     (simp add: sensor_env0_def sensor_try_def response_ok_def field_def ascii_def
        number_or_null_def Boolean_def truthy_opt_def)

text \<open>
  Claim C10 says that each parsed field falls back to \<open>null\<close> unless the response field has
  the expected type. The three boolean fields do not: a response whose \<open>temp_alert\<close> is the
  string \<open>"no"\<close> gives \<open>tempAlert = true\<close>. (The string \<open>"21.5"\<close> for the temperature does
  give \<open>null\<close>.)
\<close>

theorem boolean_field_counterexample:
  "device sensor_env0 = Sensor_response 200 (Inr (JObj
        [(ascii ''temperature'', JStr (ascii ''21.5'')),
         (ascii ''light'', JNum (Finite 64)),
         (ascii ''temp_alert'', JStr (ascii ''no'')),
         (ascii ''motion'', JBool True)])) \<and>
   fetchSensorData sensor_env0 =
     Inr \<lparr>temperature = None, humidity = None, tempAlert = True, light = Some (Finite 64),
          lightIsDark = False, motion = True, lastMotion = None, isConnected = True,
          lastUpdated = 5000\<rparr>"
  by (simp add: sensor_env0_result) (simp add: sensor_env0_def)

text \<open>
  An example for C10: simulation mode, an aborted request, a status 503, and a response
  with the humidity alone.
\<close>

theorem fetchSensorData_total_witness:
  "fetchSensorData (sensor_env0\<lparr>VITE_SIMULATION_MODE := Env_string ''true''\<rparr>)
     = Inr (generateSimulatedSensorData (arith sensor_env0) (random sensor_env0) 5000) \<and>
   fetchSensorData (sensor_env0\<lparr>device := Sensor_rejected AbortError\<rparr>)
     = Inr \<lparr>temperature = None, humidity = None, tempAlert = False, light = None,
             lightIsDark = False, motion = False, lastMotion = None, isConnected = False,
             lastUpdated = 5000\<rparr> \<and>
   fetchSensorData (sensor_env0\<lparr>device := Sensor_response 503 (Inl SyntaxError)\<rparr>)
     = Inr \<lparr>temperature = None, humidity = None, tempAlert = False, light = None,
             lightIsDark = False, motion = False, lastMotion = None, isConnected = False,
             lastUpdated = 5000\<rparr> \<and>
   fetchSensorData (sensor_env0\<lparr>device := Sensor_response 200 (Inr (JObj [(ascii ''humidity'', JNum (Finite 40))]))\<rparr>)
     = Inr \<lparr>temperature = None, humidity = Some (Finite 40), tempAlert = False, light = None,
             lightIsDark = False, motion = False, lastMotion = None, isConnected = True,
             lastUpdated = 5000\<rparr>"
  using fetchSensorData_total [of "sensor_env0\<lparr>VITE_SIMULATION_MODE := Env_string ''true''\<rparr>"]
    fetchSensorData_total [of "sensor_env0\<lparr>device := Sensor_rejected AbortError\<rparr>"]
    fetchSensorData_total [of "sensor_env0\<lparr>device := Sensor_response 503 (Inl SyntaxError)\<rparr>"]
    fetchSensorData_total [of "sensor_env0\<lparr>device := Sensor_response 200 (Inr (JObj [(ascii ''humidity'', JNum (Finite 40))]))\<rparr>"]
  by (simp add: sensor_env0_def isSimulationMode_def PI_IP_def env_or_def env_truthy_def response_ok_def
      field_def ascii_def truthy_opt_def)

end
